theory Spec2Isabelle
  imports Main "HOL-Library.Monad_Syntax" "HOL-Library.Multiset" "HOL-Library.Word"
    "HOL-Library.Signed_Division"
begin

section \<open>Status codes, sizes and loops\<close>

text \<open>
  The embedding follows \<^verbatim>\<open>include/basic_vector.h\<close> and \<^verbatim>\<open>include/basic_matrix.h\<close>.
  A result of type \<open>'a option\<close> is \<open>None\<close> exactly where the C++ has no defined
  behaviour: a read or write outside the allocated buffer, or through a pointer or a
  field that no constructor has assigned. \<^verbatim>\<open>new\<close> is taken to succeed (it throws
  rather than returning a null pointer, so the \<^verbatim>\<open>nullptr\<close> branches never run), and
  the diagnostic counter \<^verbatim>\<open>ngen\<close> is left out. The element type \<^verbatim>\<open>T\<close> is a type
  parameter with the arithmetic of its type classes. Where an operation depends on the
  machine representation (the constructor for unsigned types, division) \<^verbatim>\<open>T\<close> is an
  integer type of \<open>LENGTH('a)\<close> bits, \<open>'a word\<close>, read as unsigned or as signed.

  An operator that returns a local object by value, with every \<^verbatim>\<open>return\<close> naming that
  same object, constructs it in the place of the result, and the model returns it as it
  is. The matrix's \<^verbatim>\<open>operator*\<close> returns a temporary in one branch and a local object in
  the other: there the local object is copied into the result by the copy constructor
  (the class declares no move constructor).
\<close>

datatype STATUS =
  BAD_ALLOCATOR | BOUND_ARRAY | BAD_INITIALIZED | GOOD_ALLOCATOR | DIVIDED_ZERO

text \<open>\<^verbatim>\<open>size_t\<close> is taken as 64 bits wide; the only place where it can wrap is the
  \<^verbatim>\<open>n - 1\<close> of the clamped accesses, written out here.\<close>

definition SIZE_MAX :: nat where
  "SIZE_MAX = 2 ^ 64 - 1"

definition size_dec :: "nat \<Rightarrow> nat" where
  "size_dec n = (if n = 0 then SIZE_MAX else n - 1)"

text \<open>\<^verbatim>\<open>for (size_t i = 0; i < n; i++) body\<close> with the loop's state passed along; the
  loop stops with \<open>None\<close> as soon as one iteration is undefined.\<close>

primrec for_each :: "nat list \<Rightarrow> (nat \<Rightarrow> 's \<Rightarrow> 's option) \<Rightarrow> 's \<Rightarrow> 's option" where
  "for_each [] body s = Some s"
| "for_each (i # is) body s =
     (case body i s of None \<Rightarrow> None | Some s' \<Rightarrow> for_each is body s')"

definition for_upto :: "nat \<Rightarrow> (nat \<Rightarrow> 's \<Rightarrow> 's option) \<Rightarrow> 's \<Rightarrow> 's option" where
  "for_upto n body s = for_each [0..<n] body s"

section \<open>The vector\<close>

record 'a basic_vector =
  v_Length :: nat
  v_Allocator :: "'a list option"
  v_Status :: STATUS

text \<open>\<open>v_Allocator\<close> is \<open>None\<close> while the pointer \<^verbatim>\<open>_Allocator\<close> has not been assigned.
  Storage fresh from \<^verbatim>\<open>new T[n]\<close> holds unspecified values.\<close>

definition new_array :: "nat \<Rightarrow> 'a list" where
  "new_array n = replicate n undefined"

text \<open>The raw accesses \<^verbatim>\<open>_Allocator[i]\<close>: forming the reference (the slot), reading
  it and assigning to it.\<close>

definition elem_ref :: "'a basic_vector \<Rightarrow> nat \<Rightarrow> nat option" where
  "elem_ref v i =
     (case v_Allocator v of None \<Rightarrow> None
      | Some xs \<Rightarrow> if i < length xs then Some i else None)"

definition elem_read :: "'a basic_vector \<Rightarrow> nat \<Rightarrow> 'a option" where
  "elem_read v i =
     (case v_Allocator v of None \<Rightarrow> None
      | Some xs \<Rightarrow> if i < length xs then Some (xs ! i) else None)"

definition elem_write :: "'a basic_vector \<Rightarrow> nat \<Rightarrow> 'a \<Rightarrow> 'a basic_vector option" where
  "elem_write v i x =
     (case v_Allocator v of None \<Rightarrow> None
      | Some xs \<Rightarrow>
          if i < length xs then Some (v\<lparr>v_Allocator := Some (xs[i := x])\<rparr>) else None)"

subsection \<open>Constructors\<close>

definition basic_vector_default :: "('a::zero) basic_vector option" where
  "basic_vector_default =
     elem_write \<lparr>v_Length = 1, v_Allocator = Some (new_array 1),
                 v_Status = GOOD_ALLOCATOR\<rparr> 0 0"

definition basic_vector_sized :: "nat \<Rightarrow> ('a::zero) basic_vector option" where
  "basic_vector_sized len =
     for_upto len (\<lambda>i v. elem_write v i 0)
       \<lparr>v_Length = len, v_Allocator = Some (new_array len), v_Status = GOOD_ALLOCATOR\<rparr>"

text \<open>The constructor for unsigned element types takes the fill value as a \<^verbatim>\<open>long\<close>,
  here its mathematical value; \<^verbatim>\<open>static_cast<T>\<close> to an unsigned type reduces it
  modulo \<open>2 ^ LENGTH('a)\<close>. In the negative branch nothing is assigned to
  \<^verbatim>\<open>_Allocator\<close>.\<close>

definition basic_vector_fill_unsigned :: "nat \<Rightarrow> int \<Rightarrow> ('a::len) word basic_vector option" where
  "basic_vector_fill_unsigned len initializedValue =
     (if initializedValue < 0
      then Some \<lparr>v_Length = len, v_Allocator = None, v_Status = BAD_INITIALIZED\<rparr>
      else for_upto len (\<lambda>i v. elem_write v i (word_of_int initializedValue))
             \<lparr>v_Length = len, v_Allocator = Some (new_array len),
              v_Status = GOOD_ALLOCATOR\<rparr>)"

definition basic_vector_fill :: "nat \<Rightarrow> 'a \<Rightarrow> 'a basic_vector option" where
  "basic_vector_fill len initializedValue =
     for_upto len (\<lambda>i v. elem_write v i initializedValue)
       \<lparr>v_Length = len, v_Allocator = Some (new_array len), v_Status = GOOD_ALLOCATOR\<rparr>"

definition basic_vector_copy :: "'a basic_vector \<Rightarrow> 'a basic_vector option" where
  "basic_vector_copy other =
     for_upto (v_Length other)
       (\<lambda>i v. do { x \<leftarrow> elem_read other i; elem_write v i x })
       \<lparr>v_Length = v_Length other, v_Allocator = Some (new_array (v_Length other)),
        v_Status = GOOD_ALLOCATOR\<rparr>"

subsection \<open>Element access\<close>

text \<open>\<^verbatim>\<open>operator[]\<close> (both overloads run the same statements; \<^verbatim>\<open>_Status\<close> is
  \<^verbatim>\<open>mutable\<close>) returns a reference: here the slot it refers to, with the vector as
  the call leaves it. \<^verbatim>\<open>index >= 0\<close> holds for every \<^verbatim>\<open>size_t\<close>.\<close>

definition subscript :: "'a basic_vector \<Rightarrow> nat \<Rightarrow> (nat \<times> 'a basic_vector) option" where
  "subscript v index =
     (if index < v_Length v then do { k \<leftarrow> elem_ref v index; Some (k, v) }
      else do {
        let v' = v\<lparr>v_Status := BOUND_ARRAY\<rparr>;
        k \<leftarrow> elem_ref v' (size_dec (v_Length v'));
        Some (k, v') })"

text \<open>\<^verbatim>\<open>v[index]\<close> used for its value.\<close>

definition subscript_get :: "'a basic_vector \<Rightarrow> nat \<Rightarrow> ('a \<times> 'a basic_vector) option" where
  "subscript_get v index =
     do { (k, v') \<leftarrow> subscript v index; x \<leftarrow> elem_read v' k; Some (x, v') }"

definition vector_at :: "'a basic_vector \<Rightarrow> nat \<Rightarrow> (nat \<times> 'a basic_vector) option" where
  "vector_at v index = do { k \<leftarrow> elem_ref v index; Some (k, v) }"

definition vector_set :: "'a basic_vector \<Rightarrow> 'a \<Rightarrow> nat \<Rightarrow> 'a basic_vector option" where
  "vector_set v val index = elem_write v index val"

definition setStatus :: "'a basic_vector \<Rightarrow> STATUS \<Rightarrow> 'a basic_vector" where
  "setStatus v status = v\<lparr>v_Status := status\<rparr>"

subsection \<open>Assignment and arithmetic\<close>

text \<open>Operators that take \<^verbatim>\<open>const basic_vector &\<close> operands call the \<^verbatim>\<open>const\<close>
  \<^verbatim>\<open>operator[]\<close> on them, which may write their \<^verbatim>\<open>mutable\<close> status; each model
  returns its operands as the call leaves them, next to its result. The operands are
  distinct objects; \<^verbatim>\<open>operator=\<close> on the object itself returns at once.\<close>

definition vector_assign ::
  "'a basic_vector \<Rightarrow> 'a basic_vector \<Rightarrow> ('a basic_vector \<times> 'a basic_vector) option" where
  "vector_assign self other =
     for_upto (v_Length other)
       (\<lambda>i (self, other). do {
          (x, other') \<leftarrow> subscript_get other i;
          self' \<leftarrow> elem_write self i x;
          Some (self', other') })
       (self\<lparr>v_Length := v_Length other,
             v_Allocator := Some (new_array (v_Length other))\<rparr>, other)"

text \<open>\<^verbatim>\<open>x / k\<close> on an integer type \<^verbatim>\<open>T\<close> at least as wide as \<^verbatim>\<open>int\<close>. Division by
  zero has no defined result. Unsigned division is the division of \<open>'a word\<close>. Signed
  division truncates towards zero (\<open>sdiv\<close> on the signed values), and has no defined
  result when the quotient is not representable, which is the case of the least value
  divided by \<open>-1\<close>.\<close>

datatype signedness = Unsigned | Signed

definition elem_divide :: "signedness \<Rightarrow> ('a::len) word \<Rightarrow> 'a word \<Rightarrow> 'a word option" where
  "elem_divide sg x k =
     (if k = 0 then None
      else case sg of
          Unsigned \<Rightarrow> Some (x div k)
        | Signed \<Rightarrow>
            if sint x sdiv sint k = 2 ^ (LENGTH('a) - 1) then None
            else Some (word_of_int (sint x sdiv sint k)))"

definition vector_divide ::
  "signedness \<Rightarrow> ('a::len) word basic_vector \<Rightarrow> 'a word
     \<Rightarrow> ('a word basic_vector \<times> 'a word basic_vector) option" where
  "vector_divide sg other k = do {
     vec \<leftarrow> basic_vector_copy other;
     if k = 0 then Some (setStatus vec DIVIDED_ZERO, other)
     else for_upto (v_Length vec)
            (\<lambda>i (vec, other). do {
               (x, other') \<leftarrow> subscript_get other i;
               q \<leftarrow> elem_divide sg x k;
               (slot, vec') \<leftarrow> subscript vec i;
               vec'' \<leftarrow> elem_write vec' slot q;
               Some (vec'', other') })
            (vec, other) }"

definition vector_divide_assign ::
  "signedness \<Rightarrow> ('a::len) word basic_vector \<Rightarrow> 'a word \<Rightarrow> 'a word basic_vector option" where
  "vector_divide_assign sg self k =
     (if k = 0 then Some (self\<lparr>v_Status := DIVIDED_ZERO\<rparr>)
      else for_upto (v_Length self)
             (\<lambda>i self. do {
                x \<leftarrow> elem_read self i;
                q \<leftarrow> elem_divide sg x k;
                elem_write self i q })
             self)"

text \<open>Binary \<^verbatim>\<open>+\<close> and \<^verbatim>\<open>-\<close> differ in the element operation only, and so do
  \<^verbatim>\<open>+=\<close> and \<^verbatim>\<open>-=\<close>.\<close>

definition vector_binary ::
  "('a \<Rightarrow> 'a \<Rightarrow> 'a) \<Rightarrow> ('a::zero) basic_vector \<Rightarrow> 'a basic_vector
     \<Rightarrow> ('a basic_vector \<times> 'a basic_vector \<times> 'a basic_vector) option" where
  "vector_binary f lhs rhs = do {
     vec \<leftarrow> basic_vector_sized (v_Length lhs);
     if v_Length lhs \<noteq> v_Length rhs then Some (vec\<lparr>v_Status := BOUND_ARRAY\<rparr>, lhs, rhs)
     else for_upto (v_Length lhs)
            (\<lambda>i (vec, lhs, rhs). do {
               (a, lhs') \<leftarrow> subscript_get lhs i;
               (b, rhs') \<leftarrow> subscript_get rhs i;
               (slot, vec') \<leftarrow> subscript vec i;
               vec'' \<leftarrow> elem_write vec' slot (f a b);
               Some (vec'', lhs', rhs') })
            (vec, lhs, rhs) }"

definition vector_plus ::
  "('a::{zero,plus}) basic_vector \<Rightarrow> 'a basic_vector
     \<Rightarrow> ('a basic_vector \<times> 'a basic_vector \<times> 'a basic_vector) option" where
  "vector_plus = vector_binary (+)"

definition vector_minus ::
  "('a::{zero,minus}) basic_vector \<Rightarrow> 'a basic_vector
     \<Rightarrow> ('a basic_vector \<times> 'a basic_vector \<times> 'a basic_vector) option" where
  "vector_minus = vector_binary (-)"

definition vector_compound ::
  "('a \<Rightarrow> 'a \<Rightarrow> 'a) \<Rightarrow> 'a basic_vector \<Rightarrow> 'a basic_vector
     \<Rightarrow> ('a basic_vector \<times> 'a basic_vector) option" where
  "vector_compound f self other =
     (if v_Length self \<noteq> v_Length other then Some (self, other)
      else for_upto (v_Length self)
             (\<lambda>i (self, other). do {
                (b, other') \<leftarrow> subscript_get other i;
                a \<leftarrow> elem_read self i;
                self' \<leftarrow> elem_write self i (f a b);
                Some (self', other') })
             (self, other))"

definition vector_plus_assign ::
  "('a::plus) basic_vector \<Rightarrow> 'a basic_vector \<Rightarrow> ('a basic_vector \<times> 'a basic_vector) option" where
  "vector_plus_assign = vector_compound (+)"

definition vector_minus_assign ::
  "('a::minus) basic_vector \<Rightarrow> 'a basic_vector \<Rightarrow> ('a basic_vector \<times> 'a basic_vector) option" where
  "vector_minus_assign = vector_compound (-)"

subsection \<open>Comparisons\<close>

definition vector_sum :: "('a::{zero,plus}) basic_vector \<Rightarrow> 'a option" where
  "vector_sum v =
     for_upto (v_Length v) (\<lambda>i total. do { x \<leftarrow> elem_read v i; Some (total + x) }) 0"

text \<open>\<^verbatim>\<open>std::sort(p, p + n)\<close> on the buffer; over a linear order every sorting
  algorithm returns the same list.\<close>

definition sort_buffer :: "('a::linorder) basic_vector \<Rightarrow> 'a basic_vector option" where
  "sort_buffer v =
     (case v_Allocator v of None \<Rightarrow> None
      | Some xs \<Rightarrow>
          if v_Length v \<le> length xs
          then Some (v\<lparr>v_Allocator := Some (sort (take (v_Length v) xs) @ drop (v_Length v) xs)\<rparr>)
          else None)"

text \<open>The comparing loop of \<^verbatim>\<open>operator==\<close>, which returns from inside.\<close>

primrec equal_loop ::
  "nat list \<Rightarrow> 'a basic_vector \<Rightarrow> 'a basic_vector \<Rightarrow> bool option" where
  "equal_loop [] t1 t2 = Some True"
| "equal_loop (i # is) t1 t2 = do {
     (a, t1') \<leftarrow> subscript_get t1 i;
     (b, t2') \<leftarrow> subscript_get t2 i;
     if a \<noteq> b then Some False else equal_loop is t1' t2' }"

definition vector_equal ::
  "('a::linorder) basic_vector \<Rightarrow> 'a basic_vector
     \<Rightarrow> (bool \<times> 'a basic_vector \<times> 'a basic_vector) option" where
  "vector_equal lhs rhs =
     (if v_Length lhs \<noteq> v_Length rhs then Some (False, lhs, rhs)
      else do {
        t1 \<leftarrow> basic_vector_copy lhs;
        t2 \<leftarrow> basic_vector_copy rhs;
        t1 \<leftarrow> sort_buffer t1;
        t2 \<leftarrow> sort_buffer t2;
        b \<leftarrow> equal_loop [0..<v_Length lhs] t1 t2;
        Some (b, lhs, rhs) })"

definition vector_not_equal ::
  "('a::linorder) basic_vector \<Rightarrow> 'a basic_vector
     \<Rightarrow> (bool \<times> 'a basic_vector \<times> 'a basic_vector) option" where
  "vector_not_equal lhs rhs =
     (if v_Length lhs \<noteq> v_Length rhs then Some (True, lhs, rhs)
      else do { (b, lhs', rhs') \<leftarrow> vector_equal lhs rhs; Some (\<not> b, lhs', rhs') })"

definition vector_less ::
  "('a::{zero,plus,ord}) basic_vector \<Rightarrow> 'a basic_vector
     \<Rightarrow> (bool \<times> 'a basic_vector \<times> 'a basic_vector) option" where
  "vector_less lhs rhs =
     do { a \<leftarrow> vector_sum lhs; b \<leftarrow> vector_sum rhs; Some (a < b, lhs, rhs) }"

definition vector_greater ::
  "('a::{zero,plus,ord}) basic_vector \<Rightarrow> 'a basic_vector
     \<Rightarrow> (bool \<times> 'a basic_vector \<times> 'a basic_vector) option" where
  "vector_greater lhs rhs =
     do { (b, rhs', lhs') \<leftarrow> vector_less rhs lhs; Some (b, lhs', rhs') }"

definition vector_less_eq ::
  "('a::{zero,plus,ord}) basic_vector \<Rightarrow> 'a basic_vector
     \<Rightarrow> (bool \<times> 'a basic_vector \<times> 'a basic_vector) option" where
  "vector_less_eq lhs rhs =
     do { (b, lhs', rhs') \<leftarrow> vector_greater lhs rhs; Some (\<not> b, lhs', rhs') }"

definition vector_greater_eq ::
  "('a::{zero,plus,ord}) basic_vector \<Rightarrow> 'a basic_vector
     \<Rightarrow> (bool \<times> 'a basic_vector \<times> 'a basic_vector) option" where
  "vector_greater_eq lhs rhs =
     do { (b, lhs', rhs') \<leftarrow> vector_less lhs rhs; Some (\<not> b, lhs', rhs') }"

text \<open>A vector as every completed allocation leaves it: the buffer holds \<open>v_Length\<close>
  elements.\<close>

definition allocated :: "'a basic_vector \<Rightarrow> bool" where
  "allocated v =
     (case v_Allocator v of None \<Rightarrow> False | Some xs \<Rightarrow> length xs = v_Length v)"

definition elems :: "'a basic_vector \<Rightarrow> 'a list" where
  "elems v = (case v_Allocator v of None \<Rightarrow> [] | Some xs \<Rightarrow> xs)"

section \<open>The matrix\<close>

text \<open>\<open>m_Columns\<close> is \<open>None\<close> while no constructor or assignment has written
  \<^verbatim>\<open>_Columns\<close>; reading it then has no defined result.\<close>

record 'a basic_matrix =
  m_Rows :: nat
  m_Columns :: "nat option"
  m_Allocator :: "'a basic_vector list"
  m_Status :: STATUS

text \<open>\<^verbatim>\<open>new basic_vector<T>[n]\<close> default-constructs \<open>n\<close> rows. \<open>row_read\<close> and
  \<open>row_write\<close> are the raw accesses \<^verbatim>\<open>_Allocator[row]\<close> to the row array.\<close>

definition new_rows :: "nat \<Rightarrow> ('a::zero) basic_vector list option" where
  "new_rows n = do { v \<leftarrow> basic_vector_default; Some (replicate n v) }"

definition row_read :: "'a basic_matrix \<Rightarrow> nat \<Rightarrow> 'a basic_vector option" where
  "row_read m row =
     (if row < length (m_Allocator m) then Some (m_Allocator m ! row) else None)"

definition row_write :: "'a basic_matrix \<Rightarrow> nat \<Rightarrow> 'a basic_vector \<Rightarrow> 'a basic_matrix option" where
  "row_write m row v =
     (if row < length (m_Allocator m)
      then Some (m\<lparr>m_Allocator := (m_Allocator m)[row := v]\<rparr>) else None)"

subsection \<open>Constructors and assignment\<close>

text \<open>\<^verbatim>\<open>_Allocator[row] = v\<close> for a temporary \<open>v\<close>: the row's \<^verbatim>\<open>operator=\<close>.\<close>

definition assign_row ::
  "'a basic_matrix \<Rightarrow> nat \<Rightarrow> 'a basic_vector \<Rightarrow> ('a basic_matrix \<times> 'a basic_vector) option" where
  "assign_row m row v = do {
     dst \<leftarrow> row_read m row;
     (dst', v') \<leftarrow> vector_assign dst v;
     m' \<leftarrow> row_write m row dst';
     Some (m', v') }"

definition basic_matrix_default :: "('a::zero) basic_matrix option" where
  "basic_matrix_default = do {
     rows \<leftarrow> new_rows 5;
     for_upto 5
       (\<lambda>row m. do {
          tmp \<leftarrow> basic_vector_sized 5;
          (m', _) \<leftarrow> assign_row m row tmp;
          Some m' })
       \<lparr>m_Rows = 5, m_Columns = Some 5, m_Allocator = rows, m_Status = GOOD_ALLOCATOR\<rparr> }"

definition basic_matrix_size :: "nat \<Rightarrow> ('a::zero) basic_matrix option" where
  "basic_matrix_size sz = do {
     rows \<leftarrow> new_rows sz;
     for_upto sz
       (\<lambda>row m. do {
          tmp \<leftarrow> basic_vector_sized sz;
          (m', _) \<leftarrow> assign_row m row tmp;
          Some m' })
       \<lparr>m_Rows = sz, m_Columns = Some sz, m_Allocator = rows,
        m_Status = GOOD_ALLOCATOR\<rparr> }"

text \<open>The rows are built by \<^verbatim>\<open>basic_vector<T>(columns, value)\<close>, and overload
  resolution decides which constructor that is. For a \<^verbatim>\<open>T\<close> that is not an unsigned
  integer type it is the one that takes the value as a \<^verbatim>\<open>T\<close>:\<close>

definition basic_matrix_fill :: "nat \<Rightarrow> nat \<Rightarrow> ('a::zero) \<Rightarrow> 'a basic_matrix option" where
  "basic_matrix_fill rows columns val = do {
     a \<leftarrow> new_rows rows;
     for_upto rows
       (\<lambda>row m. do {
          tmp \<leftarrow> basic_vector_fill columns val;
          (m', _) \<leftarrow> assign_row m row tmp;
          Some m' })
       \<lparr>m_Rows = rows, m_Columns = Some columns, m_Allocator = a,
        m_Status = GOOD_ALLOCATOR\<rparr> }"

text \<open>For an unsigned \<^verbatim>\<open>T\<close> it is the constructor that takes the value as a \<^verbatim>\<open>long\<close>
  (64 bits wide, as \<^verbatim>\<open>size_t\<close> is): a value that converts to a negative \<^verbatim>\<open>long\<close>
  gives rows without storage, which the row assignment then reads.\<close>

definition long_of :: "('a::len) word \<Rightarrow> int" where
  "long_of x = signed_take_bit 63 (uint x)"

definition basic_matrix_fill_unsigned ::
  "nat \<Rightarrow> nat \<Rightarrow> ('a::len) word \<Rightarrow> 'a word basic_matrix option" where
  "basic_matrix_fill_unsigned rows columns val = do {
     a \<leftarrow> new_rows rows;
     for_upto rows
       (\<lambda>row m. do {
          tmp \<leftarrow> basic_vector_fill_unsigned columns (long_of val);
          (m', _) \<leftarrow> assign_row m row tmp;
          Some m' })
       \<lparr>m_Rows = rows, m_Columns = Some columns, m_Allocator = a,
        m_Status = GOOD_ALLOCATOR\<rparr> }"

text \<open>\<^verbatim>\<open>_Allocator[row] = other._Allocator[row]\<close>: the source row is a \<^verbatim>\<open>const\<close>
  operand of the row's \<^verbatim>\<open>operator=\<close>.\<close>

definition copy_row ::
  "nat \<Rightarrow> 'a basic_matrix \<times> 'a basic_matrix \<Rightarrow> ('a basic_matrix \<times> 'a basic_matrix) option" where
  "copy_row row = (\<lambda>(m, other). do {
     src \<leftarrow> row_read other row;
     (m', src') \<leftarrow> assign_row m row src;
     other' \<leftarrow> row_write other row src';
     Some (m', other') })"

text \<open>The copy constructor assigns \<^verbatim>\<open>_Status\<close>, \<^verbatim>\<open>_Rows\<close> and \<^verbatim>\<open>_Allocator\<close>; no
  statement of it assigns \<^verbatim>\<open>_Columns\<close>.\<close>

definition basic_matrix_copy ::
  "('a::zero) basic_matrix \<Rightarrow> ('a basic_matrix \<times> 'a basic_matrix) option" where
  "basic_matrix_copy other = do {
     rows \<leftarrow> new_rows (m_Rows other);
     for_upto (m_Rows other) copy_row
       (\<lparr>m_Rows = m_Rows other, m_Columns = None, m_Allocator = rows,
         m_Status = m_Status other\<rparr>, other) }"

text \<open>\<^verbatim>\<open>operator=\<close> from another object (on the object itself it returns at once).\<close>

definition matrix_assign ::
  "('a::zero) basic_matrix \<Rightarrow> 'a basic_matrix \<Rightarrow> ('a basic_matrix \<times> 'a basic_matrix) option" where
  "matrix_assign self other = do {
     let self = self\<lparr>m_Status := m_Status other\<rparr>;
     columns \<leftarrow> m_Columns other;
     rows \<leftarrow> new_rows (m_Rows other);
     let self = self\<lparr>m_Rows := m_Rows other, m_Columns := Some columns,
                      m_Allocator := rows\<rparr>;
     for_upto (m_Rows self) copy_row (self, other) }"

subsection \<open>Element access\<close>

text \<open>\<^verbatim>\<open>at\<close> and \<^verbatim>\<open>operator()\<close> run the same statements in all four overloads. The
  reference returned is a row and a slot of that row.\<close>

definition matrix_paren ::
  "'a basic_matrix \<Rightarrow> nat \<Rightarrow> nat \<Rightarrow> ((nat \<times> nat) \<times> 'a basic_matrix) option" where
  "matrix_paren m row column =
     (if row < m_Rows m then do {
        r \<leftarrow> row_read m row;
        (slot, r') \<leftarrow> subscript r column;
        m' \<leftarrow> row_write m row r';
        Some ((row, slot), m') }
      else do {
        let m = m\<lparr>m_Status := BOUND_ARRAY\<rparr>;
        columns \<leftarrow> m_Columns m;
        r \<leftarrow> row_read m (size_dec (m_Rows m));
        (slot, r') \<leftarrow> subscript r (size_dec columns);
        m' \<leftarrow> row_write m (size_dec (m_Rows m)) r';
        Some ((size_dec (m_Rows m), slot), m') })"

definition matrix_at ::
  "'a basic_matrix \<Rightarrow> nat \<Rightarrow> nat \<Rightarrow> ((nat \<times> nat) \<times> 'a basic_matrix) option" where
  "matrix_at = matrix_paren"

definition ref_read :: "'a basic_matrix \<Rightarrow> nat \<times> nat \<Rightarrow> 'a option" where
  "ref_read m = (\<lambda>(row, slot). do { r \<leftarrow> row_read m row; elem_read r slot })"

definition ref_write :: "'a basic_matrix \<Rightarrow> nat \<times> nat \<Rightarrow> 'a \<Rightarrow> 'a basic_matrix option" where
  "ref_write m = (\<lambda>(row, slot) x. do {
     r \<leftarrow> row_read m row;
     r' \<leftarrow> elem_write r slot x;
     row_write m row r' })"

text \<open>\<^verbatim>\<open>m(row, column)\<close> used for its value.\<close>

definition paren_get :: "'a basic_matrix \<Rightarrow> nat \<Rightarrow> nat \<Rightarrow> ('a \<times> 'a basic_matrix) option" where
  "paren_get m row column = do {
     (ref, m') \<leftarrow> matrix_paren m row column;
     x \<leftarrow> ref_read m' ref;
     Some (x, m') }"

definition matrix_set :: "'a basic_matrix \<Rightarrow> nat \<Rightarrow> nat \<Rightarrow> 'a \<Rightarrow> 'a basic_matrix option" where
  "matrix_set m row column val = do {
     r \<leftarrow> row_read m row;
     (slot, r') \<leftarrow> subscript r column;
     r'' \<leftarrow> elem_write r' slot val;
     row_write m row r'' }"

subsection \<open>Arithmetic\<close>

text \<open>The dimension test \<^verbatim>\<open>(r1 != r2) && (c1 != c2)\<close> of \<^verbatim>\<open>+\<close>, \<^verbatim>\<open>-\<close>,
  \<^verbatim>\<open>+=\<close>, \<^verbatim>\<open>-=\<close> and \<^verbatim>\<open>==\<close>: the column counts are read only when the row
  counts differ.\<close>

definition both_differ :: "'a basic_matrix \<Rightarrow> 'a basic_matrix \<Rightarrow> bool option" where
  "both_differ lhs rhs =
     (if m_Rows lhs \<noteq> m_Rows rhs
      then do { a \<leftarrow> m_Columns lhs; b \<leftarrow> m_Columns rhs; Some (a \<noteq> b) }
      else Some False)"

text \<open>Binary \<^verbatim>\<open>+\<close> and \<^verbatim>\<open>-\<close> differ in the row operator only (\<open>vop\<close>), and so do
  \<^verbatim>\<open>+=\<close> and \<^verbatim>\<open>-=\<close>.\<close>

definition matrix_binary ::
  "('a basic_vector \<Rightarrow> 'a basic_vector
      \<Rightarrow> ('a basic_vector \<times> 'a basic_vector \<times> 'a basic_vector) option)
   \<Rightarrow> ('a::zero) basic_matrix \<Rightarrow> 'a basic_matrix
   \<Rightarrow> ('a basic_matrix \<times> 'a basic_matrix \<times> 'a basic_matrix) option" where
  "matrix_binary vop lhs rhs = do {
     (matrix, lhs) \<leftarrow> basic_matrix_copy lhs;
     mismatch \<leftarrow> both_differ lhs rhs;
     if mismatch then Some (matrix\<lparr>m_Status := BOUND_ARRAY\<rparr>, lhs, rhs)
     else for_upto (m_Rows lhs)
            (\<lambda>i (matrix, lhs, rhs). do {
               l \<leftarrow> row_read lhs i;
               r \<leftarrow> row_read rhs i;
               (tmp, l', r') \<leftarrow> vop l r;
               lhs' \<leftarrow> row_write lhs i l';
               rhs' \<leftarrow> row_write rhs i r';
               (matrix', _) \<leftarrow> assign_row matrix i tmp;
               Some (matrix', lhs', rhs') })
            (matrix, lhs, rhs) }"

definition matrix_plus ::
  "('a::{zero,plus}) basic_matrix \<Rightarrow> 'a basic_matrix
   \<Rightarrow> ('a basic_matrix \<times> 'a basic_matrix \<times> 'a basic_matrix) option" where
  "matrix_plus = matrix_binary vector_plus"

definition matrix_minus ::
  "('a::{zero,minus}) basic_matrix \<Rightarrow> 'a basic_matrix
   \<Rightarrow> ('a basic_matrix \<times> 'a basic_matrix \<times> 'a basic_matrix) option" where
  "matrix_minus = matrix_binary vector_minus"

definition matrix_compound ::
  "('a basic_vector \<Rightarrow> 'a basic_vector \<Rightarrow> ('a basic_vector \<times> 'a basic_vector) option)
   \<Rightarrow> 'a basic_matrix \<Rightarrow> 'a basic_matrix
   \<Rightarrow> ('a basic_matrix \<times> 'a basic_matrix) option" where
  "matrix_compound vop self other = do {
     mismatch \<leftarrow> both_differ self other;
     if mismatch then Some (self, other)
     else for_upto (m_Rows self)
            (\<lambda>i (self, other). do {
               a \<leftarrow> row_read self i;
               b \<leftarrow> row_read other i;
               (a', b') \<leftarrow> vop a b;
               self' \<leftarrow> row_write self i a';
               other' \<leftarrow> row_write other i b';
               Some (self', other') })
            (self, other) }"

definition matrix_plus_assign ::
  "('a::plus) basic_matrix \<Rightarrow> 'a basic_matrix
   \<Rightarrow> ('a basic_matrix \<times> 'a basic_matrix) option" where
  "matrix_plus_assign = matrix_compound vector_plus_assign"

definition matrix_minus_assign ::
  "('a::minus) basic_matrix \<Rightarrow> 'a basic_matrix
   \<Rightarrow> ('a basic_matrix \<times> 'a basic_matrix) option" where
  "matrix_minus_assign = matrix_compound vector_minus_assign"

text \<open>The test of \<^verbatim>\<open>*\<close> and \<^verbatim>\<open>*=\<close>,
  \<^verbatim>\<open>lhs._Rows != rhs._Columns && lhs._Columns != rhs._Rows\<close>, and the dimensions
  chosen for the product.\<close>

definition incompatible :: "'a basic_matrix \<Rightarrow> 'a basic_matrix \<Rightarrow> bool option" where
  "incompatible lhs rhs = do {
     rc \<leftarrow> m_Columns rhs;
     if m_Rows lhs \<noteq> rc then do { lc \<leftarrow> m_Columns lhs; Some (lc \<noteq> m_Rows rhs) }
     else Some False }"

definition product_dims :: "'a basic_matrix \<Rightarrow> 'a basic_matrix \<Rightarrow> (nat \<times> nat) option" where
  "product_dims lhs rhs = do {
     rc \<leftarrow> m_Columns rhs;
     if m_Rows lhs \<ge> rc then Some (m_Rows lhs, rc)
     else do { lc \<leftarrow> m_Columns lhs; Some (lc, m_Rows rhs) } }"

text \<open>The three nested loops; \<^verbatim>\<open>inner\<close> runs to \<^verbatim>\<open>rows\<close>.\<close>

definition times_step ::
  "nat \<Rightarrow> nat \<Rightarrow> nat
   \<Rightarrow> ('a::{plus,times}) basic_matrix \<times> 'a basic_matrix \<times> 'a basic_matrix
   \<Rightarrow> ('a basic_matrix \<times> 'a basic_matrix \<times> 'a basic_matrix) option" where
  "times_step row col inner = (\<lambda>(matrix, lhs, rhs). do {
     (a, lhs') \<leftarrow> paren_get lhs row inner;
     (b, rhs') \<leftarrow> paren_get rhs inner col;
     (ref, matrix') \<leftarrow> matrix_paren matrix row col;
     old \<leftarrow> ref_read matrix' ref;
     matrix'' \<leftarrow> ref_write matrix' ref (old + a * b);
     Some (matrix'', lhs', rhs') })"

definition times_loops ::
  "nat \<Rightarrow> nat
   \<Rightarrow> ('a::{plus,times}) basic_matrix \<times> 'a basic_matrix \<times> 'a basic_matrix
   \<Rightarrow> ('a basic_matrix \<times> 'a basic_matrix \<times> 'a basic_matrix) option" where
  "times_loops rows columns =
     for_upto rows (\<lambda>row.
       for_upto columns (\<lambda>col.
         for_upto rows (\<lambda>inner. times_step row col inner)))"

text \<open>Both operators build their matrices with the fill value 0, at which the row
  constructors for unsigned and for other element types build the same rows.
  \<^verbatim>\<open>return basic_matrix<T>{1, 1};\<close> constructs the result itself; \<^verbatim>\<open>return matrix;\<close>
  copy-constructs the result from the local object.\<close>

definition matrix_times ::
  "('a::{zero,plus,times}) basic_matrix \<Rightarrow> 'a basic_matrix
   \<Rightarrow> ('a basic_matrix \<times> 'a basic_matrix \<times> 'a basic_matrix) option" where
  "matrix_times lhs rhs = do {
     bad \<leftarrow> incompatible lhs rhs;
     if bad then do { m \<leftarrow> basic_matrix_fill 1 1 0; Some (m, lhs, rhs) }
     else do {
       (rows, columns) \<leftarrow> product_dims lhs rhs;
       matrix \<leftarrow> basic_matrix_fill rows columns 0;
       (matrix, lhs, rhs) \<leftarrow> times_loops rows columns (matrix, lhs, rhs);
       (result, matrix) \<leftarrow> basic_matrix_copy matrix;
       Some (result, lhs, rhs) } }"

definition matrix_times_assign ::
  "('a::{zero,plus,times}) basic_matrix \<Rightarrow> 'a basic_matrix
   \<Rightarrow> ('a basic_matrix \<times> 'a basic_matrix) option" where
  "matrix_times_assign self other = do {
     bad \<leftarrow> incompatible self other;
     if bad then Some (self, other)
     else do {
       (rows, columns) \<leftarrow> product_dims self other;
       matrix \<leftarrow> basic_matrix_fill rows columns 0;
       (matrix, self, other) \<leftarrow> times_loops rows columns (matrix, self, other);
       (self, matrix) \<leftarrow> matrix_assign self matrix;
       Some (self, other) } }"

text \<open>Binary \<^verbatim>\<open>/\<close> of the matrix has no model: its loop is bounded by
  \<^verbatim>\<open>other.size()\<close>, and \<^verbatim>\<open>basic_matrix\<close> declares no member \<^verbatim>\<open>size\<close>, so the
  operator cannot be instantiated and no call of it has a result. \<^verbatim>\<open>/=\<close> runs over
  \<^verbatim>\<open>_Rows\<close>.\<close>

definition matrix_divide_assign ::
  "signedness \<Rightarrow> ('a::len) word basic_matrix \<Rightarrow> 'a word \<Rightarrow> 'a word basic_matrix option" where
  "matrix_divide_assign sg self k =
     (if k = 0 then Some (self\<lparr>m_Status := DIVIDED_ZERO\<rparr>)
      else for_upto (m_Rows self)
             (\<lambda>i self. do {
                r \<leftarrow> row_read self i;
                r' \<leftarrow> vector_divide_assign sg r k;
                row_write self i r' })
             self)"

subsection \<open>Comparisons\<close>

primrec matrix_equal_loop ::
  "nat list \<Rightarrow> ('a::linorder) basic_matrix \<Rightarrow> 'a basic_matrix
   \<Rightarrow> (bool \<times> 'a basic_matrix \<times> 'a basic_matrix) option" where
  "matrix_equal_loop [] lhs rhs = Some (True, lhs, rhs)"
| "matrix_equal_loop (row # rows) lhs rhs = do {
     l \<leftarrow> row_read lhs row;
     r \<leftarrow> row_read rhs row;
     (ne, l', r') \<leftarrow> vector_not_equal l r;
     lhs' \<leftarrow> row_write lhs row l';
     rhs' \<leftarrow> row_write rhs row r';
     if ne then Some (False, lhs', rhs') else matrix_equal_loop rows lhs' rhs' }"

definition matrix_equal ::
  "('a::linorder) basic_matrix \<Rightarrow> 'a basic_matrix
   \<Rightarrow> (bool \<times> 'a basic_matrix \<times> 'a basic_matrix) option" where
  "matrix_equal lhs rhs = do {
     mismatch \<leftarrow> both_differ lhs rhs;
     if mismatch then Some (False, lhs, rhs)
     else matrix_equal_loop [0..<m_Rows lhs] lhs rhs }"

definition matrix_not_equal ::
  "('a::linorder) basic_matrix \<Rightarrow> 'a basic_matrix
   \<Rightarrow> (bool \<times> 'a basic_matrix \<times> 'a basic_matrix) option" where
  "matrix_not_equal lhs rhs =
     do { (b, lhs', rhs') \<leftarrow> matrix_equal lhs rhs; Some (\<not> b, lhs', rhs') }"

definition rows_sum :: "('a::{zero,plus}) basic_matrix \<Rightarrow> 'a option" where
  "rows_sum m =
     for_upto (m_Rows m)
       (\<lambda>row total. do { r \<leftarrow> row_read m row; s \<leftarrow> vector_sum r; Some (total + s) }) 0"

definition matrix_less ::
  "('a::{zero,plus,ord}) basic_matrix \<Rightarrow> 'a basic_matrix
   \<Rightarrow> (bool \<times> 'a basic_matrix \<times> 'a basic_matrix) option" where
  "matrix_less lhs rhs =
     do { sum1 \<leftarrow> rows_sum lhs; sum2 \<leftarrow> rows_sum rhs; Some (sum1 < sum2, lhs, rhs) }"

definition matrix_greater ::
  "('a::{zero,plus,ord}) basic_matrix \<Rightarrow> 'a basic_matrix
   \<Rightarrow> (bool \<times> 'a basic_matrix \<times> 'a basic_matrix) option" where
  "matrix_greater lhs rhs =
     do { (b, rhs', lhs') \<leftarrow> matrix_less rhs lhs; Some (b, lhs', rhs') }"

definition matrix_less_eq ::
  "('a::{zero,plus,ord}) basic_matrix \<Rightarrow> 'a basic_matrix
   \<Rightarrow> (bool \<times> 'a basic_matrix \<times> 'a basic_matrix) option" where
  "matrix_less_eq lhs rhs =
     do { (b, lhs', rhs') \<leftarrow> matrix_greater lhs rhs; Some (\<not> b, lhs', rhs') }"

definition matrix_greater_eq ::
  "('a::{zero,plus,ord}) basic_matrix \<Rightarrow> 'a basic_matrix
   \<Rightarrow> (bool \<times> 'a basic_matrix \<times> 'a basic_matrix) option" where
  "matrix_greater_eq lhs rhs =
     do { (b, lhs', rhs') \<leftarrow> matrix_less lhs rhs; Some (\<not> b, lhs', rhs') }"

subsection \<open>Shapes\<close>

text \<open>The row array holds \<open>m_Rows\<close> allocated rows.\<close>

definition rows_allocated :: "'a basic_matrix \<Rightarrow> bool" where
  "rows_allocated m = (length (m_Allocator m) = m_Rows m \<and> list_all allocated (m_Allocator m))"

text \<open>The invariant of the data model: every row has \<open>columnCount\<close> elements.\<close>

definition row_invariant :: "'a basic_matrix \<Rightarrow> bool" where
  "row_invariant m =
     (case m_Columns m of None \<Rightarrow> False
      | Some c \<Rightarrow> list_all (\<lambda>r. v_Length r = c) (m_Allocator m))"

definition well_formed :: "'a basic_matrix \<Rightarrow> bool" where
  "well_formed m = (rows_allocated m \<and> row_invariant m)"

text \<open>What a row's \<^verbatim>\<open>operator=\<close> makes of a freshly constructed row: length and
  elements of the source, the status of the new row.\<close>

definition row_copy :: "'a basic_vector \<Rightarrow> 'a basic_vector" where
  "row_copy r = \<lparr>v_Length = v_Length r, v_Allocator = Some (elems r), v_Status = GOOD_ALLOCATOR\<rparr>"

text \<open>The elements of a matrix, row by row.\<close>

definition matrix_elems :: "'a basic_matrix \<Rightarrow> 'a list list" where
  "matrix_elems m = map elems (m_Allocator m)"

text \<open>The value that \<^verbatim>\<open>m(row, column)\<close> yields, where the access is defined.\<close>

definition paren_value :: "'a basic_matrix \<Rightarrow> nat \<Rightarrow> nat \<Rightarrow> 'a" where
  "paren_value m row column = fst (the (paren_get m row column))"

text \<open>A matrix with at least one row and one column.\<close>

definition nonempty :: "'a basic_matrix \<Rightarrow> bool" where
  "nonempty m = (0 < m_Rows m \<and> (case m_Columns m of None \<Rightarrow> False | Some c \<Rightarrow> 0 < c))"

subsection \<open>Auxiliary notions for the proofs\<close>

text \<open>The \<open>R\<close> by \<open>C\<close> matrix with entries \<open>f row col\<close> and every status
  \<open>GOOD_ALLOCATOR\<close>, and the matrices with \<open>R\<close> rows of \<open>C\<close> elements whose row \<open>i\<close>
  holds the elements \<open>es i\<close>, whatever their status fields.\<close>

definition grid :: "nat \<Rightarrow> nat \<Rightarrow> (nat \<Rightarrow> nat \<Rightarrow> 'a) \<Rightarrow> 'a basic_matrix" where
  "grid R C f =
     \<lparr>m_Rows = R, m_Columns = Some C,
      m_Allocator =
        map (\<lambda>i. \<lparr>v_Length = C, v_Allocator = Some (map (f i) [0..<C]),
                   v_Status = GOOD_ALLOCATOR\<rparr>) [0..<R],
      m_Status = GOOD_ALLOCATOR\<rparr>"

definition holds :: "nat \<Rightarrow> nat \<Rightarrow> (nat \<Rightarrow> 'a list) \<Rightarrow> 'a basic_matrix \<Rightarrow> bool" where
  "holds R C es m =
     (m_Rows m = R \<and> m_Columns m = Some C \<and> length (m_Allocator m) = R
      \<and> (\<forall>i < R. v_Length (m_Allocator m ! i) = C
                  \<and> v_Allocator (m_Allocator m ! i) = Some (es i)
                  \<and> length (es i) = C))"

definition clamp_row :: "nat \<Rightarrow> nat \<Rightarrow> nat" where
  "clamp_row R row = (if row < R then row else R - 1)"

definition clamp_col :: "nat \<Rightarrow> nat \<Rightarrow> nat \<Rightarrow> nat \<Rightarrow> nat" where
  "clamp_col R C row col = (if row < R then (if col < C then col else C - 1) else C - 1)"

section \<open>Loops\<close>

lemma for_each_append:
  "for_each (xs @ ys) body s = Option.bind (for_each xs body s) (for_each ys body)"
  by (induction xs arbitrary: s) (auto split: option.splits)

lemma for_upto_0 [simp]: "for_upto 0 body s = Some s"
  by (simp add: for_upto_def)

lemma for_upto_Suc:
  "for_upto (Suc n) body s = Option.bind (for_upto n body s) (body n)"
  by (cases "for_each [0..<n] body s")
     (simp_all add: for_upto_def for_each_append split: option.splits)

text \<open>A loop whose body keeps an invariant and agrees there with a simpler body.\<close>

lemma for_upto_cong_inv:
  assumes init: "I s"
    and agree: "\<And>i t. i < n \<Longrightarrow> I t \<Longrightarrow> body i t = body' i t"
    and keep: "\<And>i t t'. i < n \<Longrightarrow> I t \<Longrightarrow> body' i t = Some t' \<Longrightarrow> I t'"
  shows "for_upto n body s = for_upto n body' s
         \<and> (\<forall>t. for_upto n body' s = Some t \<longrightarrow> I t)"
proof -
  have "k \<le> n \<Longrightarrow> for_upto k body s = for_upto k body' s
         \<and> (\<forall>t. for_upto k body' s = Some t \<longrightarrow> I t)" for k
  proof (induction k)
    case 0
    show ?case using init by simp
  next
    case (Suc k)
    then have k: "k < n" and eq: "for_upto k body s = for_upto k body' s"
      and inv: "\<And>t. for_upto k body' s = Some t \<Longrightarrow> I t"
      by simp_all
    show ?case
    proof (cases "for_upto k body' s")
      case None
      then show ?thesis using eq by (simp add: for_upto_Suc)
    next
      case (Some t)
      have "I t" using inv Some by blast
      then have "body k t = body' k t" and "\<And>t'. body' k t = Some t' \<Longrightarrow> I t'"
        using agree [OF k] keep [OF k] by blast+
      then show ?thesis using eq Some by (simp add: for_upto_Suc)
    qed
  qed
  then show ?thesis by blast
qed

text \<open>Filling a buffer slot by slot.\<close>

lemma fill_loop_prefix:
  assumes "v_Allocator v = Some xs" and "k \<le> length xs"
  shows "for_upto k (\<lambda>i w. elem_write w i (f i)) v
         = Some (v\<lparr>v_Allocator := Some (map f [0..<k] @ drop k xs)\<rparr>)"
  using assms(2)
proof (induction k)
  case 0
  with assms(1) show ?case by simp
next
  case (Suc k)
  then have k: "k < length xs" by simp
  have upd: "(map f [0..<k] @ drop k xs)[k := f k] = map f [0..<k] @ f k # drop (Suc k) xs"
    using k by (simp add: list_update_append Cons_nth_drop_Suc [symmetric])
  show ?case
    using Suc.IH k upd by (simp add: for_upto_Suc elem_write_def)
qed

lemma fill_loop:
  assumes "v_Allocator v = Some xs" and "length xs = n"
  shows "for_upto n (\<lambda>i w. elem_write w i (f i)) v
         = Some (v\<lparr>v_Allocator := Some (map f [0..<n])\<rparr>)"
  using fill_loop_prefix [OF assms(1), of n f] assms(2) by simp

lemma basic_vector_sized_eq:
  "basic_vector_sized n
   = Some \<lparr>v_Length = n, v_Allocator = Some (replicate n 0), v_Status = GOOD_ALLOCATOR\<rparr>"
  unfolding basic_vector_sized_def
  by (subst fill_loop [where xs = "new_array n"])
     (simp_all add: new_array_def map_replicate_const)

lemma basic_vector_fill_eq:
  "basic_vector_fill n x
   = Some \<lparr>v_Length = n, v_Allocator = Some (replicate n x), v_Status = GOOD_ALLOCATOR\<rparr>"
  unfolding basic_vector_fill_def
  by (subst fill_loop [where xs = "new_array n"])
     (simp_all add: new_array_def map_replicate_const)

lemma basic_vector_default_eq:
  "basic_vector_default
   = Some \<lparr>v_Length = 1, v_Allocator = Some [0], v_Status = GOOD_ALLOCATOR\<rparr>"
  by (simp add: basic_vector_default_def elem_write_def new_array_def)

lemma basic_vector_copy_eq:
  assumes "v_Allocator other = Some xs" and "length xs = v_Length other"
  shows "basic_vector_copy other
         = Some \<lparr>v_Length = v_Length other, v_Allocator = Some xs,
                 v_Status = GOOD_ALLOCATOR\<rparr>"
proof -
  let ?v0 = "\<lparr>v_Length = v_Length other, v_Allocator = Some (new_array (v_Length other)),
              v_Status = GOOD_ALLOCATOR\<rparr>"
  have "for_upto (v_Length other) (\<lambda>i v. do { x \<leftarrow> elem_read other i; elem_write v i x }) ?v0
        = for_upto (v_Length other) (\<lambda>i v. elem_write v i (xs ! i)) ?v0"
    using for_upto_cong_inv [where I = "\<lambda>_. True" and n = "v_Length other" and s = ?v0
        and body = "\<lambda>i v. do { x \<leftarrow> elem_read other i; elem_write v i x }"
        and body' = "\<lambda>i v. elem_write v i (xs ! i)"] assms
    by (simp add: elem_read_def)
  also have "\<dots> = Some (?v0\<lparr>v_Allocator := Some (map (\<lambda>i. xs ! i) [0..<v_Length other])\<rparr>)"
    by (rule fill_loop [where xs = "new_array (v_Length other)"]) (simp_all add: new_array_def)
  also have "map (\<lambda>i. xs ! i) [0..<v_Length other] = xs"
    using assms(2) by (metis map_nth)
  finally show ?thesis by (simp add: basic_vector_copy_def)
qed

section \<open>Vector access and comparison\<close>

lemma allocatedE:
  assumes "allocated v"
  obtains xs where "v_Allocator v = Some xs" and "length xs = v_Length v"
  using assms by (auto simp: allocated_def split: option.splits)

lemma allocated_elems: "allocated v \<Longrightarrow> v_Allocator v = Some (elems v)"
  by (auto simp: allocated_def elems_def split: option.splits)

lemma allocated_length: "allocated v \<Longrightarrow> length (elems v) = v_Length v"
  by (auto simp: allocated_def elems_def split: option.splits)

lemma subscript_in_range:
  "allocated v \<Longrightarrow> i < v_Length v \<Longrightarrow> subscript v i = Some (i, v)"
  by (auto simp: subscript_def elem_ref_def allocated_def split: option.splits)

lemma subscript_out_of_range:
  "allocated v \<Longrightarrow> 0 < v_Length v \<Longrightarrow> v_Length v \<le> i \<Longrightarrow>
   subscript v i = Some (v_Length v - 1, v\<lparr>v_Status := BOUND_ARRAY\<rparr>)"
  by (auto simp: subscript_def elem_ref_def allocated_def size_dec_def Let_def
           split: option.splits)

lemma subscript_get_in_range:
  "allocated v \<Longrightarrow> i < v_Length v \<Longrightarrow> subscript_get v i = Some (elems v ! i, v)"
  by (auto simp: subscript_get_def subscript_in_range elem_read_def allocated_def elems_def
           split: option.splits)

lemma vector_at_in_range:
  "allocated v \<Longrightarrow> i < v_Length v \<Longrightarrow> vector_at v i = Some (i, v)"
  by (auto simp: vector_at_def elem_ref_def allocated_def split: option.splits)

lemma vector_at_out_of_range:
  "allocated v \<Longrightarrow> v_Length v \<le> i \<Longrightarrow> vector_at v i = None"
  by (auto simp: vector_at_def elem_ref_def allocated_def split: option.splits)

lemma basic_vector_copy_allocated:
  "allocated v \<Longrightarrow>
   basic_vector_copy v
   = Some \<lparr>v_Length = v_Length v, v_Allocator = Some (elems v), v_Status = GOOD_ALLOCATOR\<rparr>"
  by (rule basic_vector_copy_eq) (simp_all add: allocated_elems allocated_length)

lemma sort_buffer_allocated:
  "allocated v \<Longrightarrow> sort_buffer v = Some (v\<lparr>v_Allocator := Some (sort (elems v))\<rparr>)"
  by (auto simp: sort_buffer_def allocated_def elems_def split: option.splits)

lemma equal_loop_spec:
  assumes "allocated t1" and "allocated t2"
    and "\<forall>i \<in> set is. i < v_Length t1 \<and> i < v_Length t2"
  shows "equal_loop is t1 t2 = Some (\<forall>i \<in> set is. elems t1 ! i = elems t2 ! i)"
  using assms(3)
proof (induction "is")
  case Nil
  show ?case by simp
next
  case (Cons i "is")
  then have "subscript_get t1 i = Some (elems t1 ! i, t1)"
    and "subscript_get t2 i = Some (elems t2 ! i, t2)"
    using assms(1,2) by (simp_all add: subscript_get_in_range)
  with Cons show ?case by simp
qed

lemma sort_eq_iff_mset: "sort xs = sort ys \<longleftrightarrow> mset xs = mset ys"
proof
  assume "sort xs = sort ys"
  then have "mset (sort xs) = mset (sort ys)" by simp
  then show "mset xs = mset ys" by simp
next
  assume "mset xs = mset ys"
  then show "sort xs = sort ys"
    by (metis properties_for_sort mset_sort sorted_sort)
qed

lemma vector_equal_spec:
  assumes "allocated lhs" and "allocated rhs"
  shows "vector_equal lhs rhs
         = Some (v_Length lhs = v_Length rhs \<and> mset (elems lhs) = mset (elems rhs), lhs, rhs)"
proof (cases "v_Length lhs = v_Length rhs")
  case False
  then show ?thesis by (simp add: vector_equal_def)
next
  case True
  let ?t1 = "\<lparr>v_Length = v_Length lhs, v_Allocator = Some (sort (elems lhs)),
              v_Status = GOOD_ALLOCATOR\<rparr>"
  let ?t2 = "\<lparr>v_Length = v_Length rhs, v_Allocator = Some (sort (elems rhs)),
              v_Status = GOOD_ALLOCATOR\<rparr>"
  have len: "length (elems lhs) = v_Length lhs" "length (elems rhs) = v_Length rhs"
    using assms by (simp_all add: allocated_length)
  have a1: "allocated ?t1" and a2: "allocated ?t2"
    using len by (simp_all add: allocated_def)
  have s1: "Option.bind (basic_vector_copy lhs) sort_buffer = Some ?t1"
    using assms(1) len(1)
    by (simp add: basic_vector_copy_allocated sort_buffer_def)
  have s2: "Option.bind (basic_vector_copy rhs) sort_buffer = Some ?t2"
    using assms(2) len(2)
    by (simp add: basic_vector_copy_allocated sort_buffer_def)
  have loop: "equal_loop [0..<v_Length lhs] ?t1 ?t2
              = Some (\<forall>i \<in> set [0..<v_Length lhs]. elems ?t1 ! i = elems ?t2 ! i)"
    by (rule equal_loop_spec [OF a1 a2]) (simp add: True)
  have "(\<forall>i \<in> set [0..<v_Length lhs]. elems ?t1 ! i = elems ?t2 ! i)
        \<longleftrightarrow> sort (elems lhs) = sort (elems rhs)"
    using len True by (auto simp: elems_def list_eq_iff_nth_eq)
  with loop have loop': "equal_loop [0..<v_Length lhs] ?t1 ?t2
              = Some (mset (elems lhs) = mset (elems rhs))"
    by (simp add: sort_eq_iff_mset)
  show ?thesis
    using True assms len loop'
    by (simp add: vector_equal_def basic_vector_copy_allocated sort_buffer_def)
qed

lemma vector_not_equal_spec:
  assumes "allocated lhs" and "allocated rhs"
  shows "vector_not_equal lhs rhs
         = Some (\<not> (v_Length lhs = v_Length rhs \<and> mset (elems lhs) = mset (elems rhs)),
                 lhs, rhs)"
  using assms by (simp add: vector_not_equal_def vector_equal_spec)

lemma basic_vector_fill_unsigned_nonneg:
  "0 \<le> x \<Longrightarrow> basic_vector_fill_unsigned n x = basic_vector_fill n (word_of_int x)"
  by (simp add: basic_vector_fill_unsigned_def basic_vector_fill_def)

section \<open>Matrix construction and copying\<close>

text \<open>The counted loop returns and establishes \<open>I n\<close> when each iteration returns and
  carries the invariant from \<open>i\<close> to \<open>Suc i\<close>.\<close>

lemma for_upto_rule:
  assumes init: "I 0 s"
    and step: "\<And>i t. i < n \<Longrightarrow> I i t \<Longrightarrow> \<exists>t'. body i t = Some t' \<and> I (Suc i) t'"
  shows "\<exists>t. for_upto n body s = Some t \<and> I n t"
proof -
  have "k \<le> n \<Longrightarrow> \<exists>t. for_upto k body s = Some t \<and> I k t" for k
  proof (induction k)
    case 0
    show ?case using init by simp
  next
    case (Suc k)
    then obtain t where t: "for_upto k body s = Some t" "I k t" by auto
    from Suc.prems have "k < n" by simp
    from step [OF this t(2)] obtain t' where "body k t = Some t'" "I (Suc k) t'" by blast
    with t(1) show ?case by (simp add: for_upto_Suc)
  qed
  then show ?thesis by blast
qed

lemma update_prefix:
  assumes "i < length xs" and "length ys = length xs"
  shows "(take i xs @ drop i ys)[i := xs ! i] = take (Suc i) xs @ drop (Suc i) ys"
proof -
  have "drop i ys = ys ! i # drop (Suc i) ys"
    using assms by (simp add: Cons_nth_drop_Suc)
  then show ?thesis
    using assms by (simp add: list_update_append take_Suc_conv_app_nth)
qed

lemma new_rows_eq:
  "new_rows n
   = Some (replicate n \<lparr>v_Length = 1, v_Allocator = Some [0], v_Status = GOOD_ALLOCATOR\<rparr>)"
  by (simp add: new_rows_def basic_vector_default_eq)

lemma vector_assign_spec:
  assumes "allocated other"
  shows "vector_assign self other
         = Some (self\<lparr>v_Length := v_Length other, v_Allocator := Some (elems other)\<rparr>, other)"
proof -
  let ?n = "v_Length other"
  let ?s0 = "self\<lparr>v_Length := ?n, v_Allocator := Some (new_array ?n)\<rparr>"
  let ?body = "\<lambda>i (self, other). do {
          (x, other') \<leftarrow> subscript_get other i;
          self' \<leftarrow> elem_write self i x;
          Some (self', other') }"
  let ?I = "\<lambda>i (t, ot). ot = other \<and>
     t = self\<lparr>v_Length := ?n,
              v_Allocator := Some (take i (elems other) @ drop i (new_array ?n))\<rparr>"
  have len: "length (elems other) = ?n" using assms by (rule allocated_length)
  have "\<exists>t. for_upto ?n ?body (?s0, other) = Some t \<and> ?I ?n t"
  proof (rule for_upto_rule [where I = ?I])
    show "?I 0 (?s0, other)" by simp
  next
    fix i t
    assume i: "i < ?n" and inv: "?I i t"
    have "(take i (elems other) @ drop i (new_array ?n))[i := elems other ! i]
          = take (Suc i) (elems other) @ drop (Suc i) (new_array ?n)"
      using i len by (intro update_prefix) (simp_all add: new_array_def)
    then show "\<exists>t'. ?body i t = Some t' \<and> ?I (Suc i) t'"
      using i inv len assms
      by (cases t) (simp add: subscript_get_in_range elem_write_def new_array_def
            del: list_update.simps)
  qed
  then show ?thesis using len by (auto simp: vector_assign_def new_array_def)
qed


lemma assign_row_spec:
  assumes "row < length (m_Allocator m)" and "allocated v"
  shows "assign_row m row v
         = Some (m\<lparr>m_Allocator := (m_Allocator m)
                   [row := (m_Allocator m ! row)\<lparr>v_Length := v_Length v,
                                                v_Allocator := Some (elems v)\<rparr>]\<rparr>, v)"
  using assms by (simp add: assign_row_def row_read_def row_write_def vector_assign_spec)

lemma update_prefix_map:
  assumes "i < n" and "length ys = n"
  shows "(map f [0..<i] @ drop i ys)[i := f i] = map f [0..<Suc i] @ drop (Suc i) ys"
proof -
  have "drop i ys = ys ! i # drop (Suc i) ys"
    using assms by (simp add: Cons_nth_drop_Suc)
  then show ?thesis
    by (simp add: list_update_append)
qed

text \<open>Building the rows of a new matrix one after the other.\<close>

lemma build_rows:
  assumes len: "length rows0 = n"
    and tmp: "\<And>i. i < n \<Longrightarrow> mk i = Some (v i) \<and> allocated (v i)"
  shows "for_upto n (\<lambda>row m. do { tmp \<leftarrow> mk row; (m', _) \<leftarrow> assign_row m row tmp; Some m' })
           (m0\<lparr>m_Allocator := rows0\<rparr>)
         = Some (m0\<lparr>m_Allocator :=
              map (\<lambda>i. (rows0 ! i)\<lparr>v_Length := v_Length (v i),
                                     v_Allocator := Some (elems (v i))\<rparr>) [0..<n]\<rparr>)"
proof -
  let ?f = "\<lambda>i. (rows0 ! i)\<lparr>v_Length := v_Length (v i), v_Allocator := Some (elems (v i))\<rparr>"
  let ?body = "\<lambda>row m. do { tmp \<leftarrow> mk row; (m', _) \<leftarrow> assign_row m row tmp; Some m' }"
  let ?I = "\<lambda>i m. m = m0\<lparr>m_Allocator := map ?f [0..<i] @ drop i rows0\<rparr>"
  have "\<exists>t. for_upto n ?body (m0\<lparr>m_Allocator := rows0\<rparr>) = Some t \<and> ?I n t"
  proof (rule for_upto_rule [where I = ?I])
    show "?I 0 (m0\<lparr>m_Allocator := rows0\<rparr>)" by simp
  next
    fix i t
    assume i: "i < n" and inv: "?I i t"
    have nth: "(map ?f [0..<i] @ drop i rows0) ! i = rows0 ! i"
      using i len by (simp add: nth_append)
    have upd: "(map ?f [0..<i] @ drop i rows0)[i := ?f i] = map ?f [0..<Suc i] @ drop (Suc i) rows0"
      using i len by (rule update_prefix_map)
    have "assign_row t i (v i)
          = Some (t\<lparr>m_Allocator := (m_Allocator t)[i := (m_Allocator t ! i)
                 \<lparr>v_Length := v_Length (v i), v_Allocator := Some (elems (v i))\<rparr>]\<rparr>, v i)"
      using i len inv tmp [OF i] by (intro assign_row_spec) simp_all
    then show "\<exists>t'. ?body i t = Some t' \<and> ?I (Suc i) t'"
      using tmp [OF i] inv nth upd by (simp del: upt_Suc list_update.simps)
  qed
  then show ?thesis using len by auto
qed

lemma basic_matrix_fill_eq:
  "basic_matrix_fill rows columns x
   = Some \<lparr>m_Rows = rows, m_Columns = Some columns,
           m_Allocator = replicate rows
             \<lparr>v_Length = columns, v_Allocator = Some (replicate columns x),
              v_Status = GOOD_ALLOCATOR\<rparr>,
           m_Status = GOOD_ALLOCATOR\<rparr>"
proof -
  let ?d = "\<lparr>v_Length = 1, v_Allocator = Some [0::'a], v_Status = GOOD_ALLOCATOR\<rparr>"
  let ?v = "\<lparr>v_Length = columns, v_Allocator = Some (replicate columns x),
             v_Status = GOOD_ALLOCATOR\<rparr>"
  let ?m0 = "\<lparr>m_Rows = rows, m_Columns = Some columns, m_Allocator = replicate rows ?d,
              m_Status = GOOD_ALLOCATOR\<rparr>"
  have "for_upto rows
          (\<lambda>row m. do { tmp \<leftarrow> basic_vector_fill columns x;
                         (m', _) \<leftarrow> assign_row m row tmp; Some m' })
          (?m0\<lparr>m_Allocator := replicate rows ?d\<rparr>)
        = Some (?m0\<lparr>m_Allocator :=
             map (\<lambda>i. (replicate rows ?d ! i)\<lparr>v_Length := v_Length ?v,
                                    v_Allocator := Some (elems ?v)\<rparr>) [0..<rows]\<rparr>)"
    by (rule build_rows) (simp_all add: basic_vector_fill_eq allocated_def)
  moreover have "map (\<lambda>i. (replicate rows ?d ! i)\<lparr>v_Length := v_Length ?v,
                                    v_Allocator := Some (elems ?v)\<rparr>) [0..<rows]
                 = replicate rows ?v"
    by (simp add: list_eq_iff_nth_eq elems_def)
  ultimately show ?thesis
    by (simp add: basic_matrix_fill_def new_rows_eq)
qed


lemma copy_rows_spec:
  assumes len: "length rows0 = n" and le: "n \<le> length (m_Allocator other)"
    and alloc: "\<And>i. i < n \<Longrightarrow> allocated (m_Allocator other ! i)"
  shows "for_upto n copy_row (m0\<lparr>m_Allocator := rows0\<rparr>, other)
         = Some (m0\<lparr>m_Allocator :=
              map (\<lambda>i. (rows0 ! i)\<lparr>v_Length := v_Length (m_Allocator other ! i),
                     v_Allocator := Some (elems (m_Allocator other ! i))\<rparr>) [0..<n]\<rparr>, other)"
proof -
  let ?f = "\<lambda>i. (rows0 ! i)\<lparr>v_Length := v_Length (m_Allocator other ! i),
                     v_Allocator := Some (elems (m_Allocator other ! i))\<rparr>"
  let ?I = "\<lambda>i (m, ot). ot = other \<and> m = m0\<lparr>m_Allocator := map ?f [0..<i] @ drop i rows0\<rparr>"
  have "\<exists>t. for_upto n copy_row (m0\<lparr>m_Allocator := rows0\<rparr>, other) = Some t \<and> ?I n t"
  proof (rule for_upto_rule [where I = ?I])
    show "?I 0 (m0\<lparr>m_Allocator := rows0\<rparr>, other)" by simp
  next
    fix i t
    assume i: "i < n" and inv: "?I i t"
    obtain m ot where t: "t = (m, ot)" by (cases t)
    have nth: "(map ?f [0..<i] @ drop i rows0) ! i = rows0 ! i"
      using i len by (simp add: nth_append)
    have upd: "(map ?f [0..<i] @ drop i rows0)[i := ?f i] = map ?f [0..<Suc i] @ drop (Suc i) rows0"
      using i len by (rule update_prefix_map)
    have asg: "assign_row m i (m_Allocator other ! i)
          = Some (m\<lparr>m_Allocator := (m_Allocator m)[i := (m_Allocator m ! i)
                 \<lparr>v_Length := v_Length (m_Allocator other ! i),
                  v_Allocator := Some (elems (m_Allocator other ! i))\<rparr>]\<rparr>,
                  m_Allocator other ! i)"
      using i len inv t alloc [OF i] by (intro assign_row_spec) simp_all
    have rd: "row_read other i = Some (m_Allocator other ! i)"
      and wr: "row_write other i (m_Allocator other ! i) = Some other"
      using i le by (simp_all add: row_read_def row_write_def)
    show "\<exists>t'. copy_row i t = Some t' \<and> ?I (Suc i) t'"
      using inv t asg rd wr nth upd
      by (simp add: copy_row_def del: upt_Suc list_update.simps)
  qed
  then show ?thesis using len by auto
qed

lemma rows_allocated_nth:
  "rows_allocated m \<Longrightarrow> i < m_Rows m \<Longrightarrow> allocated (m_Allocator m ! i)"
  by (simp add: rows_allocated_def list_all_length)

lemma rows_allocated_length: "rows_allocated m \<Longrightarrow> length (m_Allocator m) = m_Rows m"
  by (simp add: rows_allocated_def)

lemma copied_rows:
  assumes "length rows = n" and "v_Status d = GOOD_ALLOCATOR"
  shows "map (\<lambda>i. (replicate n d ! i)
                  \<lparr>v_Length := v_Length (rows ! i), v_Allocator := Some (elems (rows ! i))\<rparr>)
           [0..<n]
         = map row_copy rows"
  using assms by (simp add: list_eq_iff_nth_eq row_copy_def)

lemma basic_matrix_copy_spec:
  assumes "rows_allocated other"
  shows "basic_matrix_copy other
         = Some (\<lparr>m_Rows = m_Rows other, m_Columns = None,
                  m_Allocator = map row_copy (m_Allocator other),
                  m_Status = m_Status other\<rparr>, other)"
proof -
  let ?d = "\<lparr>v_Length = 1, v_Allocator = Some [0::'a], v_Status = GOOD_ALLOCATOR\<rparr>"
  let ?m0 = "\<lparr>m_Rows = m_Rows other, m_Columns = None,
              m_Allocator = replicate (m_Rows other) ?d, m_Status = m_Status other\<rparr>"
  have "for_upto (m_Rows other) copy_row
          (?m0\<lparr>m_Allocator := replicate (m_Rows other) ?d\<rparr>, other)
        = Some (?m0\<lparr>m_Allocator :=
              map (\<lambda>i. (replicate (m_Rows other) ?d ! i)
                     \<lparr>v_Length := v_Length (m_Allocator other ! i),
                      v_Allocator := Some (elems (m_Allocator other ! i))\<rparr>)
                [0..<m_Rows other]\<rparr>, other)"
    using assms
    by (intro copy_rows_spec) (simp_all add: rows_allocated_length rows_allocated_nth)
  moreover have "map (\<lambda>i. (replicate (m_Rows other) ?d ! i)
                     \<lparr>v_Length := v_Length (m_Allocator other ! i),
                      v_Allocator := Some (elems (m_Allocator other ! i))\<rparr>)
                [0..<m_Rows other] = map row_copy (m_Allocator other)"
    using assms by (intro copied_rows) (simp_all add: rows_allocated_length)
  ultimately show ?thesis
    by (simp add: basic_matrix_copy_def new_rows_eq)
qed

lemma matrix_overwrite:
  "(self :: 'a basic_matrix)\<lparr>m_Status := st, m_Rows := r, m_Columns := c, m_Allocator := a\<rparr>
   = \<lparr>m_Rows = r, m_Columns = c, m_Allocator = a, m_Status = st\<rparr>"
  by (cases self) simp

lemma matrix_assign_spec:
  assumes "rows_allocated other" and "m_Columns other = Some c"
  shows "matrix_assign self other
         = Some (\<lparr>m_Rows = m_Rows other, m_Columns = Some c,
                  m_Allocator = map row_copy (m_Allocator other),
                  m_Status = m_Status other\<rparr>, other)"
proof -
  let ?d = "\<lparr>v_Length = 1, v_Allocator = Some [0::'a], v_Status = GOOD_ALLOCATOR\<rparr>"
  let ?m0 = "\<lparr>m_Rows = m_Rows other, m_Columns = Some c,
              m_Allocator = replicate (m_Rows other) ?d, m_Status = m_Status other\<rparr>"
  have "for_upto (m_Rows other) copy_row
          (?m0\<lparr>m_Allocator := replicate (m_Rows other) ?d\<rparr>, other)
        = Some (?m0\<lparr>m_Allocator :=
              map (\<lambda>i. (replicate (m_Rows other) ?d ! i)
                     \<lparr>v_Length := v_Length (m_Allocator other ! i),
                      v_Allocator := Some (elems (m_Allocator other ! i))\<rparr>)
                [0..<m_Rows other]\<rparr>, other)"
    using assms
    by (intro copy_rows_spec) (simp_all add: rows_allocated_length rows_allocated_nth)
  moreover have "map (\<lambda>i. (replicate (m_Rows other) ?d ! i)
                     \<lparr>v_Length := v_Length (m_Allocator other ! i),
                      v_Allocator := Some (elems (m_Allocator other ! i))\<rparr>)
                [0..<m_Rows other] = map row_copy (m_Allocator other)"
    using assms by (intro copied_rows) (simp_all add: rows_allocated_length)
  ultimately show ?thesis
    using assms(2) by (simp add: matrix_assign_def new_rows_eq matrix_overwrite)
qed

section \<open>Scalar division\<close>

lemma in_place_loop:
  assumes v: "v_Allocator v = Some xs" and len: "length xs = n"
    and body: "\<And>i ys. i < n \<Longrightarrow> length ys = n \<Longrightarrow> ys ! i = xs ! i \<Longrightarrow>
       body i (v\<lparr>v_Allocator := Some ys\<rparr>) = elem_write (v\<lparr>v_Allocator := Some ys\<rparr>) i (f i)"
  shows "for_upto n body v = Some (v\<lparr>v_Allocator := Some (map f [0..<n])\<rparr>)"
proof -
  let ?I = "\<lambda>i w. w = v\<lparr>v_Allocator := Some (map f [0..<i] @ drop i xs)\<rparr>"
  have "\<exists>t. for_upto n body v = Some t \<and> ?I n t"
  proof (rule for_upto_rule [where I = ?I])
    show "?I 0 v" using v by simp
  next
    fix i t
    assume i: "i < n" and inv: "?I i t"
    let ?ys = "map f [0..<i] @ drop i xs"
    have l: "length ?ys = n" using i len by simp
    have nth: "?ys ! i = xs ! i" using i len by (simp add: nth_append)
    have upd: "?ys[i := f i] = map f [0..<Suc i] @ drop (Suc i) xs"
      using i len by (rule update_prefix_map)
    have "body i t = elem_write t i (f i)"
      using body [OF i l nth] inv by simp
    then show "\<exists>t'. body i t = Some t' \<and> ?I (Suc i) t'"
      using inv i l upd by (simp add: elem_write_def del: upt_Suc list_update.simps)
  qed
  then show ?thesis using len by auto
qed

text \<open>The quotients \<open>q x\<close> below are those of the element division, where it is
  defined for every element.\<close>

lemma vector_divide_assign_zero:
  "vector_divide_assign sg v 0 = Some (v\<lparr>v_Status := DIVIDED_ZERO\<rparr>)"
  by (simp add: vector_divide_assign_def)

lemma vector_divide_assign_nonzero:
  assumes "allocated v" and "k \<noteq> 0"
    and q: "\<And>x. x \<in> set (elems v) \<Longrightarrow> elem_divide sg x k = Some (q x)"
  shows "vector_divide_assign sg v k = Some (v\<lparr>v_Allocator := Some (map q (elems v))\<rparr>)"
proof -
  have len: "length (elems v) = v_Length v" using assms(1) by (rule allocated_length)
  have "for_upto (v_Length v)
          (\<lambda>i self. do { x \<leftarrow> elem_read self i; q \<leftarrow> elem_divide sg x k; elem_write self i q }) v
        = Some (v\<lparr>v_Allocator := Some (map (\<lambda>i. q (elems v ! i)) [0..<v_Length v])\<rparr>)"
  proof (rule in_place_loop [where xs = "elems v"])
    show "v_Allocator v = Some (elems v)" using assms(1) by (rule allocated_elems)
    show "length (elems v) = v_Length v" by (rule len)
  next
    fix i ys
    assume i: "i < v_Length v" and ys: "length ys = v_Length v" "ys ! i = elems v ! i"
    have "elem_divide sg (elems v ! i) k = Some (q (elems v ! i))"
      using i len by (intro q) simp
    then show "(do { x \<leftarrow> elem_read (v\<lparr>v_Allocator := Some ys\<rparr>) i;
                     q \<leftarrow> elem_divide sg x k;
                     elem_write (v\<lparr>v_Allocator := Some ys\<rparr>) i q })
               = elem_write (v\<lparr>v_Allocator := Some ys\<rparr>) i (q (elems v ! i))"
      using i ys by (simp add: elem_read_def)
  qed
  moreover have "map (\<lambda>i. q (elems v ! i)) [0..<v_Length v] = map q (elems v)"
    using len by (simp add: list_eq_iff_nth_eq)
  ultimately show ?thesis using assms(2) by (simp add: vector_divide_assign_def)
qed

lemma vector_divide_zero:
  assumes "allocated v"
  shows "vector_divide sg v 0 = Some ((row_copy v)\<lparr>v_Status := DIVIDED_ZERO\<rparr>, v)"
  using assms
  by (simp add: vector_divide_def basic_vector_copy_allocated setStatus_def row_copy_def)

lemma vector_divide_nonzero:
  assumes "allocated v" and "k \<noteq> 0"
    and q: "\<And>x. x \<in> set (elems v) \<Longrightarrow> elem_divide sg x k = Some (q x)"
  shows "vector_divide sg v k
         = Some (\<lparr>v_Length = v_Length v, v_Allocator = Some (map q (elems v)),
                  v_Status = GOOD_ALLOCATOR\<rparr>, v)"
proof -
  let ?n = "v_Length v"
  let ?xs = "elems v"
  let ?f = "\<lambda>i. q (?xs ! i)"
  let ?c = "\<lparr>v_Length = ?n, v_Allocator = Some ?xs, v_Status = GOOD_ALLOCATOR\<rparr>"
  let ?body = "\<lambda>i (vec, other). do {
               (x, other') \<leftarrow> subscript_get other i;
               q \<leftarrow> elem_divide sg x k;
               (slot, vec') \<leftarrow> subscript vec i;
               vec'' \<leftarrow> elem_write vec' slot q;
               Some (vec'', other') }"
  let ?W = "\<lambda>ys. \<lparr>v_Length = ?n, v_Allocator = Some ys, v_Status = GOOD_ALLOCATOR\<rparr>"
  let ?I = "\<lambda>i (vec, ot). ot = v \<and> vec = ?W (map ?f [0..<i] @ drop i ?xs)"
  have len: "length ?xs = ?n" using assms(1) by (rule allocated_length)
  have "\<exists>t. for_upto ?n ?body (?c, v) = Some t \<and> ?I ?n t"
  proof (rule for_upto_rule [where I = ?I])
    show "?I 0 (?c, v)" by simp
  next
    fix i t
    assume i: "i < ?n" and inv: "?I i t"
    let ?w = "?W (map ?f [0..<i] @ drop i ?xs)"
    have t: "t = (?w, v)" using inv by (cases t) simp
    have aw: "allocated ?w" using i len by (simp add: allocated_def)
    have sub: "subscript ?w i = Some (i, ?w)"
      using aw i by (simp add: subscript_in_range)
    have upd: "(map ?f [0..<i] @ drop i ?xs)[i := ?f i] = map ?f [0..<Suc i] @ drop (Suc i) ?xs"
      using i len by (rule update_prefix_map)
    have wr: "elem_write ?w i (?f i)
              = Some (?W (map ?f [0..<Suc i] @ drop (Suc i) ?xs))"
      using i len upd by (simp add: elem_write_def del: upt_Suc list_update.simps)
    have dv: "elem_divide sg (?xs ! i) k = Some (?f i)"
      using i len by (intro q) simp
    show "\<exists>t'. ?body i t = Some t' \<and> ?I (Suc i) t'"
      using assms(1) i
      by (simp add: t subscript_get_in_range dv sub wr del: upt_Suc list_update.simps)
  qed
  moreover have "map ?f [0..<?n] = map q ?xs"
    using len by (simp add: list_eq_iff_nth_eq)
  ultimately show ?thesis
    using assms(1,2) len
    by (auto simp: vector_divide_def basic_vector_copy_allocated)
qed

lemma unsigned_quotient:
  "k \<noteq> 0 \<Longrightarrow> elem_divide Unsigned x k = Some (x div k)"
  by (simp add: elem_divide_def)

lemma signed_quotient:
  "k \<noteq> 0 \<Longrightarrow> sint x sdiv sint k \<noteq> 2 ^ (LENGTH('a) - 1) \<Longrightarrow>
   elem_divide Signed (x :: 'a::len word) k = Some (word_of_int (sint x sdiv sint k))"
  by (simp add: elem_divide_def)

lemma update_prefix_rows:
  assumes "i < length rows"
  shows "(map g (take i rows) @ drop i rows)[i := g (rows ! i)]
         = map g (take (Suc i) rows) @ drop (Suc i) rows"
proof -
  have "drop i rows = rows ! i # drop (Suc i) rows"
    using assms by (simp add: Cons_nth_drop_Suc)
  then show ?thesis
    using assms by (simp add: list_update_append take_Suc_conv_app_nth min_def)
qed

lemma rows_in_place_loop:
  assumes len: "length rows = n"
    and op: "\<And>i. i < n \<Longrightarrow> f (rows ! i) = Some (g (rows ! i))"
  shows "for_upto n (\<lambda>i m. do { r \<leftarrow> row_read m i; r' \<leftarrow> f r; row_write m i r' })
           (m0\<lparr>m_Allocator := rows\<rparr>)
         = Some (m0\<lparr>m_Allocator := map g rows\<rparr>)"
proof -
  let ?body = "\<lambda>i m. do { r \<leftarrow> row_read m i; r' \<leftarrow> f r; row_write m i r' }"
  let ?I = "\<lambda>i m. m = m0\<lparr>m_Allocator := map g (take i rows) @ drop i rows\<rparr>"
  have "\<exists>t. for_upto n ?body (m0\<lparr>m_Allocator := rows\<rparr>) = Some t \<and> ?I n t"
  proof (rule for_upto_rule [where I = ?I])
    show "?I 0 (m0\<lparr>m_Allocator := rows\<rparr>)" by simp
  next
    fix i t
    assume i: "i < n" and inv: "?I i t"
    have nth: "(map g (take i rows) @ drop i rows) ! i = rows ! i"
      using i len by (simp add: nth_append)
    have upd: "(map g (take i rows) @ drop i rows)[i := g (rows ! i)]
               = map g (take (Suc i) rows) @ drop (Suc i) rows"
      using i len by (intro update_prefix_rows) simp
    show "\<exists>t'. ?body i t = Some t' \<and> ?I (Suc i) t'"
      using i len inv nth upd op [OF i]
      by (simp add: row_read_def row_write_def del: list_update.simps)
  qed
  then show ?thesis using len by auto
qed

lemma matrix_divide_assign_zero:
  "matrix_divide_assign sg m 0 = Some (m\<lparr>m_Status := DIVIDED_ZERO\<rparr>)"
  by (simp add: matrix_divide_assign_def)

lemma matrix_divide_assign_nonzero:
  assumes "rows_allocated m" and "k \<noteq> 0"
    and q: "\<And>r x. r \<in> set (m_Allocator m) \<Longrightarrow> x \<in> set (elems r) \<Longrightarrow>
              elem_divide sg x k = Some (q x)"
  shows "matrix_divide_assign sg m k
         = Some (m\<lparr>m_Allocator :=
              map (\<lambda>r. r\<lparr>v_Allocator := Some (map q (elems r))\<rparr>) (m_Allocator m)\<rparr>)"
proof -
  have "for_upto (m_Rows m)
          (\<lambda>i m. do { r \<leftarrow> row_read m i; r' \<leftarrow> vector_divide_assign sg r k; row_write m i r' })
          (m\<lparr>m_Allocator := m_Allocator m\<rparr>)
        = Some (m\<lparr>m_Allocator :=
              map (\<lambda>r. r\<lparr>v_Allocator := Some (map q (elems r))\<rparr>) (m_Allocator m)\<rparr>)"
  proof (rule rows_in_place_loop)
    show "length (m_Allocator m) = m_Rows m" using assms(1) by (rule rows_allocated_length)
  next
    fix i
    assume i: "i < m_Rows m"
    have "m_Allocator m ! i \<in> set (m_Allocator m)"
      using i assms(1) by (simp add: rows_allocated_length)
    then show "vector_divide_assign sg (m_Allocator m ! i) k
               = Some ((m_Allocator m ! i)\<lparr>v_Allocator :=
                         Some (map q (elems (m_Allocator m ! i)))\<rparr>)"
      using assms(1,2) i q
      by (intro vector_divide_assign_nonzero) (simp_all add: rows_allocated_nth)
  qed
  then show ?thesis using assms(2) by (simp add: matrix_divide_assign_def)
qed

lemma elems_row_copy: "elems (row_copy r) = elems r"
  by (simp add: row_copy_def elems_def)

lemma matrix_elems_copy:
  "matrix_elems \<lparr>m_Rows = n, m_Columns = c, m_Allocator = map row_copy rows, m_Status = st\<rparr>
   = map elems rows"
  by (simp add: matrix_elems_def elems_row_copy)

text \<open>Division by zero is atomic for the vector's \<^verbatim>\<open>/\<close> and \<^verbatim>\<open>/=\<close> and the matrix's
  \<^verbatim>\<open>/=\<close>: the results are defined, so no element is divided, and only the status
  differs from the operand.\<close>

lemma zero_divisor_is_atomic:
  assumes "allocated v" and "rows_allocated m"
  shows "vector_divide sg v 0
           = Some (\<lparr>v_Length = v_Length v, v_Allocator = Some (elems v),
                    v_Status = DIVIDED_ZERO\<rparr>, v)"
    and "vector_divide_assign sg v 0 = Some (v\<lparr>v_Status := DIVIDED_ZERO\<rparr>)"
    and "matrix_divide_assign sg m 0 = Some (m\<lparr>m_Status := DIVIDED_ZERO\<rparr>)"
  using assms(1)
  by (simp_all add: vector_divide_zero row_copy_def vector_divide_assign_zero
        matrix_divide_assign_zero)

text \<open>A divisor other than zero divides every element: unsigned, and signed with the
  quotients truncated towards zero.\<close>

lemma unsigned_division_divides:
  assumes "allocated v" and "k \<noteq> 0"
  shows "vector_divide Unsigned v k
           = Some (\<lparr>v_Length = v_Length v, v_Allocator = Some (map (\<lambda>x. x div k) (elems v)),
                    v_Status = GOOD_ALLOCATOR\<rparr>, v)"
    and "vector_divide_assign Unsigned v k
           = Some (v\<lparr>v_Allocator := Some (map (\<lambda>x. x div k) (elems v))\<rparr>)"
  using assms
  by (simp_all add: vector_divide_nonzero vector_divide_assign_nonzero unsigned_quotient)

lemma signed_division_truncates:
  "vector_divide_assign Signed
     \<lparr>v_Length = 3, v_Allocator = Some [- 7, 7, - 1 :: 32 word], v_Status = GOOD_ALLOCATOR\<rparr> 2
   = Some \<lparr>v_Length = 3, v_Allocator = Some [- 3, 3, 0], v_Status = GOOD_ALLOCATOR\<rparr>"
proof -
  let ?v = "\<lparr>v_Length = 3, v_Allocator = Some [- 7, 7, - 1 :: 32 word],
             v_Status = GOOD_ALLOCATOR\<rparr>"
  have a: "allocated ?v" by (simp add: allocated_def)
  have q: "elem_divide Signed x 2 = Some (word_of_int (sint x sdiv 2))"
    if "x \<in> set (elems ?v)" for x :: "32 word"
    using that by (auto simp: elems_def elem_divide_def signed_divide_int_def)
  have "vector_divide_assign Signed ?v 2
        = Some (?v\<lparr>v_Allocator := Some (map (\<lambda>x. word_of_int (sint x sdiv 2)) (elems ?v))\<rparr>)"
    using a q by (intro vector_divide_assign_nonzero) simp_all
  then show ?thesis by (simp add: elems_def signed_divide_int_def)
qed

section \<open>Operands of the comparisons\<close>

lemma elem_read_allocated:
  "allocated v \<Longrightarrow> i < v_Length v \<Longrightarrow> elem_read v i = Some (elems v ! i)"
  by (auto simp: elem_read_def allocated_def elems_def split: option.splits)

lemma vector_sum_defined:
  assumes "allocated v"
  shows "\<exists>s. vector_sum v = Some s"
proof -
  have "\<exists>t. for_upto (v_Length v)
          (\<lambda>i total. do { x \<leftarrow> elem_read v i; Some (total + x) }) 0 = Some t \<and> True"
    using assms
    by (intro for_upto_rule [where I = "\<lambda>_ _. True"])
       (simp_all add: elem_read_allocated)
  then show ?thesis by (simp add: vector_sum_def)
qed

lemma vector_less_unchanged:
  assumes "allocated lhs" and "allocated rhs"
  shows "\<exists>b. vector_less lhs rhs = Some (b, lhs, rhs)"
  using vector_sum_defined [OF assms(1)] vector_sum_defined [OF assms(2)]
  by (auto simp: vector_less_def)

lemma vector_greater_unchanged:
  assumes "allocated lhs" and "allocated rhs"
  shows "\<exists>b. vector_greater lhs rhs = Some (b, lhs, rhs)"
  using vector_less_unchanged [OF assms(2) assms(1)] by (auto simp: vector_greater_def)

lemma vector_less_eq_unchanged:
  assumes "allocated lhs" and "allocated rhs"
  shows "\<exists>b. vector_less_eq lhs rhs = Some (b, lhs, rhs)"
  using vector_greater_unchanged [OF assms] by (auto simp: vector_less_eq_def)

lemma vector_greater_eq_unchanged:
  assumes "allocated lhs" and "allocated rhs"
  shows "\<exists>b. vector_greater_eq lhs rhs = Some (b, lhs, rhs)"
  using vector_less_unchanged [OF assms] by (auto simp: vector_greater_eq_def)

lemma rows_sum_defined:
  assumes "rows_allocated m"
  shows "\<exists>s. rows_sum m = Some s"
proof -
  have "\<exists>t. for_upto (m_Rows m)
          (\<lambda>row total. do { r \<leftarrow> row_read m row; s \<leftarrow> vector_sum r; Some (total + s) }) 0
        = Some t \<and> True"
  proof (rule for_upto_rule [where I = "\<lambda>_ _. True"])
    fix i t
    assume i: "i < m_Rows m"
    from vector_sum_defined [OF rows_allocated_nth [OF assms i]]
    obtain s where "vector_sum (m_Allocator m ! i) = Some s" by blast
    then show "\<exists>t'. (do { r \<leftarrow> row_read m i; s \<leftarrow> vector_sum r; Some (t + s) }) = Some t' \<and> True"
      using i assms by (simp add: row_read_def rows_allocated_length)
  qed simp
  then show ?thesis by (simp add: rows_sum_def)
qed

lemma matrix_less_unchanged:
  assumes "rows_allocated lhs" and "rows_allocated rhs"
  shows "\<exists>b. matrix_less lhs rhs = Some (b, lhs, rhs)"
  using rows_sum_defined [OF assms(1)] rows_sum_defined [OF assms(2)]
  by (auto simp: matrix_less_def)

lemma matrix_greater_unchanged:
  assumes "rows_allocated lhs" and "rows_allocated rhs"
  shows "\<exists>b. matrix_greater lhs rhs = Some (b, lhs, rhs)"
  using matrix_less_unchanged [OF assms(2) assms(1)] by (auto simp: matrix_greater_def)

lemma matrix_less_eq_unchanged:
  assumes "rows_allocated lhs" and "rows_allocated rhs"
  shows "\<exists>b. matrix_less_eq lhs rhs = Some (b, lhs, rhs)"
  using matrix_greater_unchanged [OF assms] by (auto simp: matrix_less_eq_def)

lemma matrix_greater_eq_unchanged:
  assumes "rows_allocated lhs" and "rows_allocated rhs"
  shows "\<exists>b. matrix_greater_eq lhs rhs = Some (b, lhs, rhs)"
  using matrix_less_unchanged [OF assms] by (auto simp: matrix_greater_eq_def)

text \<open>The row loop of the matrix's \<^verbatim>\<open>==\<close> writes each compared row back as
  \<^verbatim>\<open>!=\<close> left it, which is as it was.\<close>

lemma matrix_equal_loop_unchanged:
  assumes "rows_allocated lhs" and "rows_allocated rhs"
    and "\<forall>row \<in> set rows. row < m_Rows lhs \<and> row < m_Rows rhs"
  shows "\<exists>b. matrix_equal_loop rows lhs rhs = Some (b, lhs, rhs)"
  using assms(3)
proof (induction rows)
  case Nil
  show ?case by auto
next
  case (Cons row rows)
  then have r: "row < m_Rows lhs" "row < m_Rows rhs" by simp_all
  have al: "allocated (m_Allocator lhs ! row)" and ar: "allocated (m_Allocator rhs ! row)"
    using assms(1,2) r by (simp_all add: rows_allocated_nth)
  have rd: "row_read lhs row = Some (m_Allocator lhs ! row)"
    "row_read rhs row = Some (m_Allocator rhs ! row)"
    and wr: "row_write lhs row (m_Allocator lhs ! row) = Some lhs"
    "row_write rhs row (m_Allocator rhs ! row) = Some rhs"
    using assms(1,2) r by (simp_all add: row_read_def row_write_def rows_allocated_length)
  from Cons obtain b where "matrix_equal_loop rows lhs rhs = Some (b, lhs, rhs)" by auto
  then show ?case
    using al ar by (auto simp: rd wr vector_not_equal_spec)
qed

lemma both_differ_defined:
  assumes "well_formed lhs" and "well_formed rhs"
  shows "\<exists>b. both_differ lhs rhs = Some b"
  using assms
  by (auto simp: both_differ_def well_formed_def row_invariant_def split: option.splits)

lemma matrix_equal_unchanged:
  assumes "well_formed lhs" and "well_formed rhs" and "m_Rows lhs \<le> m_Rows rhs"
  shows "\<exists>b. matrix_equal lhs rhs = Some (b, lhs, rhs)"
proof -
  from both_differ_defined [OF assms(1,2)] obtain d where d: "both_differ lhs rhs = Some d"
    by blast
  have "\<exists>b. matrix_equal_loop [0..<m_Rows lhs] lhs rhs = Some (b, lhs, rhs)"
    using assms by (intro matrix_equal_loop_unchanged) (simp_all add: well_formed_def)
  then show ?thesis using d by (auto simp: matrix_equal_def)
qed

lemma matrix_not_equal_unchanged:
  assumes "well_formed lhs" and "well_formed rhs" and "m_Rows lhs \<le> m_Rows rhs"
  shows "\<exists>b. matrix_not_equal lhs rhs = Some (b, lhs, rhs)"
  using matrix_equal_unchanged [OF assms] by (auto simp: matrix_not_equal_def)


lemma vector_equal_result:
  "vector_equal l r = Some (b, l', r') \<Longrightarrow> l' = l \<and> r' = r"
  by (auto simp: vector_equal_def split: if_splits bind_splits)

lemma vector_not_equal_result:
  "vector_not_equal l r = Some (b, l', r') \<Longrightarrow> l' = l \<and> r' = r"
  by (auto simp: vector_not_equal_def split: if_splits bind_splits dest: vector_equal_result)

lemma row_write_read:
  "row_read m row = Some l \<Longrightarrow> row_write m row l = Some m' \<Longrightarrow> m' = m"
  by (auto simp: row_read_def row_write_def split: if_splits)

lemma matrix_equal_loop_result:
  "matrix_equal_loop rows lhs rhs = Some (b, l', r') \<Longrightarrow> l' = lhs \<and> r' = rhs"
proof (induction rows)
  case Nil
  then show ?case by simp
next
  case (Cons row rows)
  from Cons.prems obtain l r ne l1 r1 lhs1 rhs1 where
    rd: "row_read lhs row = Some l" "row_read rhs row = Some r"
    and ne: "vector_not_equal l r = Some (ne, l1, r1)"
    and wr: "row_write lhs row l1 = Some lhs1" "row_write rhs row r1 = Some rhs1"
    and rest: "(if ne then Some (False, lhs1, rhs1) else matrix_equal_loop rows lhs1 rhs1)
               = Some (b, l', r')"
    by (auto split: bind_splits)
  from vector_not_equal_result [OF ne] have "l1 = l" "r1 = r" by simp_all
  with rd wr have same: "lhs1 = lhs" "rhs1 = rhs"
    by (auto dest: row_write_read)
  show ?case
  proof (cases ne)
    case True
    with rest same show ?thesis by simp
  next
    case False
    with rest same have "matrix_equal_loop rows lhs rhs = Some (b, l', r')" by simp
    then show ?thesis by (rule Cons.IH)
  qed
qed

lemma matrix_equal_result:
  "matrix_equal lhs rhs = Some (b, l', r') \<Longrightarrow> l' = lhs \<and> r' = rhs"
  by (auto simp: matrix_equal_def split: if_splits bind_splits dest: matrix_equal_loop_result)

lemma matrix_not_equal_result:
  "matrix_not_equal lhs rhs = Some (b, l', r') \<Longrightarrow> l' = lhs \<and> r' = rhs"
  by (auto simp: matrix_not_equal_def split: bind_splits dest: matrix_equal_result)

section \<open>The matrix product\<close>

lemma subscript_row:
  assumes "v_Length r = C" and "v_Allocator r = Some xs" and "length xs = C" and "0 < C"
  shows "\<exists>r'. subscript r col = Some (if col < C then col else C - 1, r')
              \<and> v_Length r' = C \<and> v_Allocator r' = Some xs"
  using assms
  by (auto simp: subscript_def elem_ref_def size_dec_def Let_def)

lemma holds_row:
  "holds R C es m \<Longrightarrow> i < R \<Longrightarrow>
   v_Length (m_Allocator m ! i) = C \<and> v_Allocator (m_Allocator m ! i) = Some (es i)
   \<and> length (es i) = C"
  by (simp add: holds_def)

lemma holds_update:
  assumes h: "holds R C es m" and i: "i < R"
    and r: "v_Length r' = C" "v_Allocator r' = Some (es i)"
  shows "holds R C es (m\<lparr>m_Allocator := (m_Allocator m)[i := r']\<rparr>)"
  using assms by (auto simp: holds_def nth_list_update)

lemma holds_status: "holds R C es m \<Longrightarrow> holds R C es (m\<lparr>m_Status := st\<rparr>)"
  by (simp add: holds_def)

text \<open>Reading an operand through \<^verbatim>\<open>operator()\<close>: the clamped element, and an operand
  that holds the same elements.\<close>

lemma paren_get_holds:
  assumes h: "holds R C es m" and R: "0 < R" and C: "0 < C"
  shows "\<exists>m'. paren_get m row col
                = Some (es (clamp_row R row) ! clamp_col R C row col, m')
              \<and> holds R C es m'"
proof (cases "row < R")
  case True
  let ?r = "m_Allocator m ! row"
  from holds_row [OF h True] have fr: "v_Length ?r = C" "v_Allocator ?r = Some (es row)"
    "length (es row) = C" by simp_all
  from subscript_row [OF fr C, of col] obtain r' where
    sub: "subscript ?r col = Some (if col < C then col else C - 1, r')"
    and r': "v_Length r' = C" "v_Allocator r' = Some (es row)" by blast
  let ?m' = "m\<lparr>m_Allocator := (m_Allocator m)[row := r']\<rparr>"
  have len: "length (m_Allocator m) = R" "m_Rows m = R" using h by (simp_all add: holds_def)
  have slot: "(if col < C then col else C - 1) < C" using C by simp
  have "matrix_paren m row col = Some ((row, if col < C then col else C - 1), ?m')"
    using True len sub by (simp add: matrix_paren_def row_read_def row_write_def)
  moreover have "ref_read ?m' (row, if col < C then col else C - 1)
                 = Some (es row ! (if col < C then col else C - 1))"
    using True len r' fr(3) slot by (simp add: ref_read_def row_read_def elem_read_def)
  moreover have "holds R C es ?m'" using h True r' by (rule holds_update)
  ultimately show ?thesis
    using True by (simp add: paren_get_def clamp_row_def clamp_col_def)
next
  case False
  let ?r = "m_Allocator m ! (R - 1)"
  have last_row: "R - 1 < R" using R by simp
  from holds_row [OF h last_row] have fr: "v_Length ?r = C" "v_Allocator ?r = Some (es (R - 1))"
    "length (es (R - 1)) = C" by simp_all
  from subscript_row [OF fr C, of "C - 1"] C obtain r' where
    sub: "subscript ?r (C - 1) = Some (C - 1, r')"
    and r': "v_Length r' = C" "v_Allocator r' = Some (es (R - 1))" by auto
  let ?m1 = "m\<lparr>m_Status := BOUND_ARRAY\<rparr>"
  let ?m' = "?m1\<lparr>m_Allocator := (m_Allocator ?m1)[R - 1 := r']\<rparr>"
  have len: "length (m_Allocator m) = R" "m_Rows m = R" "m_Columns m = Some C"
    using h by (simp_all add: holds_def)
  have "matrix_paren m row col = Some ((R - 1, C - 1), ?m')"
    using False len sub R C
    by (simp add: matrix_paren_def row_read_def row_write_def size_dec_def Let_def)
  moreover have "ref_read ?m' (R - 1, C - 1) = Some (es (R - 1) ! (C - 1))"
    using len r' fr(3) R C by (simp add: ref_read_def row_read_def elem_read_def)
  moreover have "holds R C es ?m'"
    using holds_status [OF h] last_row r' by (rule holds_update)
  ultimately show ?thesis
    using False by (simp add: paren_get_def clamp_row_def clamp_col_def)
qed

lemma well_formed_holds:
  assumes "well_formed m" and "m_Columns m = Some c"
  shows "holds (m_Rows m) c (\<lambda>i. elems (m_Allocator m ! i)) m"
  using assms
  by (auto simp: well_formed_def rows_allocated_def row_invariant_def holds_def
        list_all_length allocated_elems allocated_length)


lemma grid_cong:
  assumes "\<And>i k. i < R \<Longrightarrow> k < C \<Longrightarrow> f i k = g i k"
  shows "grid R C f = grid R C g"
  using assms by (simp add: grid_def)

lemma basic_matrix_fill_grid: "basic_matrix_fill R C x = Some (grid R C (\<lambda>_ _. x))"
  by (simp add: basic_matrix_fill_eq grid_def map_replicate_const)

lemma grid_paren:
  assumes "row < R" and "col < C"
  shows "matrix_paren (grid R C f) row col = Some ((row, col), grid R C f)"
proof -
  let ?r = "\<lparr>v_Length = C, v_Allocator = Some (map (f row) [0..<C]), v_Status = GOOD_ALLOCATOR\<rparr>"
  have rd: "row_read (grid R C f) row = Some ?r"
    using assms by (simp add: row_read_def grid_def)
  have sub: "subscript ?r col = Some (col, ?r)"
    using assms by (simp add: subscript_def elem_ref_def)
  have wr: "row_write (grid R C f) row ?r = Some (grid R C f)"
    using assms by (simp add: row_write_def grid_def list_update_same_conv)
  show ?thesis
    using assms by (simp add: matrix_paren_def rd sub wr) (simp add: grid_def)
qed

lemma grid_ref_read:
  assumes "row < R" and "col < C"
  shows "ref_read (grid R C f) (row, col) = Some (f row col)"
  using assms by (simp add: ref_read_def row_read_def elem_read_def grid_def)

lemma grid_ref_write:
  assumes "row < R" and "col < C"
  shows "ref_write (grid R C f) (row, col) x
         = Some (grid R C (f(row := (f row)(col := x))))"
proof -
  have cols: "(map (f row) [0..<C])[col := x] = map ((f row)(col := x)) [0..<C]"
    using assms by (simp add: list_eq_iff_nth_eq nth_list_update)
  have rows: "(map (\<lambda>i. \<lparr>v_Length = C, v_Allocator = Some (map (f i) [0..<C]),
                          v_Status = GOOD_ALLOCATOR\<rparr>) [0..<R])
                [row := \<lparr>v_Length = C, v_Allocator = Some (map ((f row)(col := x)) [0..<C]),
                          v_Status = GOOD_ALLOCATOR\<rparr>]
              = map (\<lambda>i. \<lparr>v_Length = C,
                          v_Allocator = Some (map ((f(row := (f row)(col := x))) i) [0..<C]),
                          v_Status = GOOD_ALLOCATOR\<rparr>) [0..<R]"
    using assms by (simp add: list_eq_iff_nth_eq nth_list_update)
  show ?thesis
    using assms cols rows
    by (simp add: ref_write_def row_read_def row_write_def elem_write_def grid_def
          del: fun_upd_apply)
qed

lemma grid_paren_value:
  assumes "row < R" and "col < C"
  shows "paren_value (grid R C f) row col = f row col"
  using assms by (simp add: paren_value_def paren_get_def grid_paren grid_ref_read)

lemma grid_well_formed: "well_formed (grid R C f)"
  by (simp add: well_formed_def rows_allocated_def row_invariant_def grid_def
        list_all_length allocated_def)

text \<open>One execution of \<^verbatim>\<open>matrix(row, col) += lhs(row, inner) * rhs(inner, col)\<close>.\<close>

lemma times_step_grid:
  assumes l: "holds R1 C1 es1 l" "0 < R1" "0 < C1"
    and r: "holds R2 C2 es2 r" "0 < R2" "0 < C2"
    and rc: "row < R" "col < C"
  shows "\<exists>l' r'. times_step row col inner (grid R C f, l, r)
           = Some (grid R C (f(row := (f row)(col := f row col
                      + es1 (clamp_row R1 row) ! clamp_col R1 C1 row inner
                        * es2 (clamp_row R2 inner) ! clamp_col R2 C2 inner col))), l', r')
         \<and> holds R1 C1 es1 l' \<and> holds R2 C2 es2 r'"
proof -
  from paren_get_holds [OF l, of row inner] obtain l' where
    a: "paren_get l row inner = Some (es1 (clamp_row R1 row) ! clamp_col R1 C1 row inner, l')"
    and l': "holds R1 C1 es1 l'" by blast
  from paren_get_holds [OF r, of inner col] obtain r' where
    b: "paren_get r inner col = Some (es2 (clamp_row R2 inner) ! clamp_col R2 C2 inner col, r')"
    and r': "holds R2 C2 es2 r'" by blast
  show ?thesis
    using l' r' rc
    by (simp add: times_step_def a b grid_paren grid_ref_read grid_ref_write
          del: fun_upd_apply)
qed


text \<open>The three loops, over any step that adds \<open>t row col inner\<close> to the entry
  \<open>(row, col)\<close> and keeps the operands within \<open>P\<close> and \<open>Q\<close>.\<close>

lemma inner_loop:
  fixes t :: "nat \<Rightarrow> nat \<Rightarrow> nat \<Rightarrow> 'a::semiring_0"
  assumes step: "\<And>inner f l r. P l \<Longrightarrow> Q r \<Longrightarrow>
        \<exists>l' r'. times_step row col inner (grid R C f, l, r)
           = Some (grid R C (f(row := (f row)(col := f row col + t row col inner))), l', r')
         \<and> P l' \<and> Q r'"
    and l: "P l" and r: "Q r"
  shows "\<exists>l' r'. for_upto n (\<lambda>inner. times_step row col inner) (grid R C f, l, r)
           = Some (grid R C (f(row := (f row)(col := f row col
                      + (\<Sum>inner<n. t row col inner)))), l', r')
         \<and> P l' \<and> Q r'"
proof -
  let ?F = "\<lambda>i. f(row := (f row)(col := f row col + (\<Sum>inner<i. t row col inner)))"
  let ?I = "\<lambda>i (M, l, r). M = grid R C (?F i) \<and> P l \<and> Q r"
  have "\<exists>s. for_upto n (\<lambda>inner. times_step row col inner) (grid R C f, l, r) = Some s
            \<and> ?I n s"
  proof (rule for_upto_rule [where I = ?I])
    show "?I 0 (grid R C f, l, r)" using l r by simp
  next
    fix i s
    assume "i < n" and inv: "?I i s"
    obtain M l1 r1 where s: "s = (M, l1, r1)" by (cases s)
    with inv have M: "M = grid R C (?F i)" and lr: "P l1" "Q r1" by simp_all
    from step [OF lr, of i "?F i"] obtain l' r' where
      st: "times_step row col i (grid R C (?F i), l1, r1)
           = Some (grid R C ((?F i)(row := ((?F i) row)(col := (?F i) row col + t row col i))),
                   l', r')"
      and lr': "P l'" "Q r'" by blast
    have "(?F i)(row := ((?F i) row)(col := (?F i) row col + t row col i)) = ?F (Suc i)"
      by (simp add: add.assoc)
    with st lr' show "\<exists>s'. times_step row col i s = Some s' \<and> ?I (Suc i) s'"
      by (simp add: s M)
  qed
  then show ?thesis by auto
qed

lemma middle_loop:
  fixes t :: "nat \<Rightarrow> nat \<Rightarrow> nat \<Rightarrow> 'a::semiring_0"
  assumes step: "\<And>col inner f l r. col < C \<Longrightarrow> P l \<Longrightarrow> Q r \<Longrightarrow>
        \<exists>l' r'. times_step row col inner (grid R C f, l, r)
           = Some (grid R C (f(row := (f row)(col := f row col + t row col inner))), l', r')
         \<and> P l' \<and> Q r'"
    and l: "P l" and r: "Q r" and n: "n \<le> C"
  shows "\<exists>l' r'. for_upto n (\<lambda>col. for_upto N (\<lambda>inner. times_step row col inner))
                    (grid R C f, l, r)
           = Some (grid R C (\<lambda>i k. if i = row \<and> k < n
                      then f i k + (\<Sum>inner<N. t row k inner) else f i k), l', r')
         \<and> P l' \<and> Q r'"
proof -
  let ?F = "\<lambda>j i k. if i = row \<and> k < j then f i k + (\<Sum>inner<N. t row k inner) else f i k"
  let ?I = "\<lambda>j (M, l, r). M = grid R C (?F j) \<and> P l \<and> Q r"
  have "\<exists>s. for_upto n (\<lambda>col. for_upto N (\<lambda>inner. times_step row col inner))
               (grid R C f, l, r) = Some s \<and> ?I n s"
  proof (rule for_upto_rule [where I = ?I])
    show "?I 0 (grid R C f, l, r)" using l r by simp
  next
    fix j s
    assume j: "j < n" and inv: "?I j s"
    obtain M l1 r1 where s: "s = (M, l1, r1)" by (cases s)
    with inv have M: "M = grid R C (?F j)" and lr: "P l1" "Q r1" by simp_all
    have jC: "j < C" using j n by simp
    from inner_loop [where P = P and Q = Q and t = t and row = row and col = j and R = R
        and C = C and n = N and f = "?F j", OF step [OF jC] lr]
    obtain l' r' where
      st: "for_upto N (\<lambda>inner. times_step row j inner) (grid R C (?F j), l1, r1)
           = Some (grid R C ((?F j)(row := ((?F j) row)(j := (?F j) row j
                      + (\<Sum>inner<N. t row j inner)))), l', r')"
      and lr': "P l'" "Q r'" by blast
    have "grid R C ((?F j)(row := ((?F j) row)(j := (?F j) row j
                      + (\<Sum>inner<N. t row j inner)))) = grid R C (?F (Suc j))"
      by (rule grid_cong) (auto simp: less_Suc_eq)
    with st lr'
    show "\<exists>s'. for_upto N (\<lambda>inner. times_step row j inner) s = Some s' \<and> ?I (Suc j) s'"
      by (simp add: s M)
  qed
  then show ?thesis by auto
qed

lemma outer_loop:
  fixes t :: "nat \<Rightarrow> nat \<Rightarrow> nat \<Rightarrow> 'a::semiring_0"
  assumes step: "\<And>row col inner f l r. row < R \<Longrightarrow> col < C \<Longrightarrow> P l \<Longrightarrow> Q r \<Longrightarrow>
        \<exists>l' r'. times_step row col inner (grid R C f, l, r)
           = Some (grid R C (f(row := (f row)(col := f row col + t row col inner))), l', r')
         \<and> P l' \<and> Q r'"
    and l: "P l" and r: "Q r" and n: "n \<le> R"
  shows "\<exists>l' r'. for_upto n (\<lambda>row. for_upto C (\<lambda>col.
                      for_upto N (\<lambda>inner. times_step row col inner)))
                    (grid R C f, l, r)
           = Some (grid R C (\<lambda>i k. if i < n
                      then f i k + (\<Sum>inner<N. t i k inner) else f i k), l', r')
         \<and> P l' \<and> Q r'"
proof -
  let ?F = "\<lambda>j i k. if i < j then f i k + (\<Sum>inner<N. t i k inner) else f i k"
  let ?body = "\<lambda>row. for_upto C (\<lambda>col. for_upto N (\<lambda>inner. times_step row col inner))"
  let ?I = "\<lambda>j (M, l, r). M = grid R C (?F j) \<and> P l \<and> Q r"
  have "\<exists>s. for_upto n ?body (grid R C f, l, r) = Some s \<and> ?I n s"
  proof (rule for_upto_rule [where I = ?I])
    show "?I 0 (grid R C f, l, r)" using l r by simp
  next
    fix j s
    assume j: "j < n" and inv: "?I j s"
    obtain M l1 r1 where s: "s = (M, l1, r1)" by (cases s)
    with inv have M: "M = grid R C (?F j)" and lr: "P l1" "Q r1" by simp_all
    have jR: "j < R" using j n by simp
    from middle_loop [where P = P and Q = Q and t = t and row = j and R = R
        and C = C and n = C and N = N and f = "?F j", OF step [OF jR] lr]
    obtain l' r' where
      st: "?body j (grid R C (?F j), l1, r1)
           = Some (grid R C (\<lambda>i k. if i = j \<and> k < C
                      then (?F j) i k + (\<Sum>inner<N. t j k inner) else (?F j) i k), l', r')"
      and lr': "P l'" "Q r'" by auto
    have "grid R C (\<lambda>i k. if i = j \<and> k < C
                      then (?F j) i k + (\<Sum>inner<N. t j k inner) else (?F j) i k)
          = grid R C (?F (Suc j))"
      by (rule grid_cong) (auto simp: less_Suc_eq)
    with st lr' show "\<exists>s'. ?body j s = Some s' \<and> ?I (Suc j) s'"
      by (simp add: s M)
  qed
  then show ?thesis by auto
qed

lemma paren_value_holds:
  assumes "holds R C es m" and "0 < R" and "0 < C"
  shows "paren_value m row col = es (clamp_row R row) ! clamp_col R C row col"
    and "paren_get m row col \<noteq> None"
  using paren_get_holds [OF assms, of row col] by (auto simp: paren_value_def)

lemma times_loops_grid:
  fixes es1 es2 :: "nat \<Rightarrow> ('a::semiring_0) list"
  assumes l: "holds R1 C1 es1 l" "0 < R1" "0 < C1"
    and r: "holds R2 C2 es2 r" "0 < R2" "0 < C2"
  shows "\<exists>l' r'. times_loops R C (grid R C (\<lambda>_ _. 0), l, r)
           = Some (grid R C (\<lambda>row col. \<Sum>inner<R.
                      es1 (clamp_row R1 row) ! clamp_col R1 C1 row inner
                      * es2 (clamp_row R2 inner) ! clamp_col R2 C2 inner col), l', r')
         \<and> holds R1 C1 es1 l' \<and> holds R2 C2 es2 r'"
proof -
  let ?t = "\<lambda>row col inner. es1 (clamp_row R1 row) ! clamp_col R1 C1 row inner
                      * es2 (clamp_row R2 inner) ! clamp_col R2 C2 inner col"
  have step: "\<exists>l' r'. times_step row col inner (grid R C f, l, r)
           = Some (grid R C (f(row := (f row)(col := f row col + ?t row col inner))), l', r')
         \<and> holds R1 C1 es1 l' \<and> holds R2 C2 es2 r'"
    if "row < R" "col < C" "holds R1 C1 es1 l" "holds R2 C2 es2 r" for row col inner f l r
    using times_step_grid [OF that(3) l(2,3) that(4) r(2,3) that(1,2)] .
  from outer_loop [where P = "holds R1 C1 es1" and Q = "holds R2 C2 es2" and t = ?t
      and R = R and C = C and n = R and N = R and f = "\<lambda>_ _. 0", OF step l(1) r(1)]
  obtain l' r' where
    st: "for_upto R (\<lambda>row. for_upto C (\<lambda>col. for_upto R (\<lambda>inner. times_step row col inner)))
           (grid R C (\<lambda>_ _. 0), l, r)
         = Some (grid R C (\<lambda>i k. if i < R then 0 + (\<Sum>inner<R. ?t i k inner) else 0), l', r')"
    and lr': "holds R1 C1 es1 l'" "holds R2 C2 es2 r'" by auto
  have "grid R C (\<lambda>i k. if i < R then 0 + (\<Sum>inner<R. ?t i k inner) else 0)
        = grid R C (\<lambda>row col. \<Sum>inner<R. ?t row col inner)"
    by (rule grid_cong) simp
  with st lr' show ?thesis by (simp add: times_loops_def)
qed

lemma matrix_assign_grid:
  "matrix_assign self (grid R C f) = Some (grid R C f, grid R C f)"
proof -
  have "rows_allocated (grid R C f)"
    using grid_well_formed [of R C f] by (simp add: well_formed_def)
  moreover have "m_Columns (grid R C f) = Some C" by (simp add: grid_def)
  ultimately have "matrix_assign self (grid R C f)
      = Some (\<lparr>m_Rows = m_Rows (grid R C f), m_Columns = Some C,
               m_Allocator = map row_copy (m_Allocator (grid R C f)),
               m_Status = m_Status (grid R C f)\<rparr>, grid R C f)"
    by (rule matrix_assign_spec)
  then show ?thesis by (simp add: grid_def row_copy_def elems_def)
qed

lemma grid_product_entries:
  assumes l: "holds R1 C1 es1 lhs" "0 < R1" "0 < C1"
    and r: "holds R2 C2 es2 rhs" "0 < R2" "0 < C2"
    and rc: "row < R" "col < C"
  shows "paren_value (grid R C (\<lambda>row col. \<Sum>inner<R.
                      es1 (clamp_row R1 row) ! clamp_col R1 C1 row inner
                      * es2 (clamp_row R2 inner) ! clamp_col R2 C2 inner col)) row col
         = (\<Sum>inner<R. paren_value lhs row inner * paren_value rhs inner col)"
  using rc by (simp add: grid_paren_value paren_value_holds(1) [OF l] paren_value_holds(1) [OF r])


lemma nonempty_columns: "nonempty m \<Longrightarrow> m_Columns m = Some c \<Longrightarrow> 0 < m_Rows m \<and> 0 < c"
  by (simp add: nonempty_def)

lemma long_of_zero: "long_of 0 = 0"
  by (simp add: long_of_def)

lemma basic_matrix_fill_unsigned_zero:
  "basic_matrix_fill_unsigned rows columns 0 = basic_matrix_fill rows columns 0"
  by (simp add: basic_matrix_fill_unsigned_def basic_matrix_fill_def long_of_zero
        basic_vector_fill_unsigned_nonneg)

lemma basic_matrix_copy_grid:
  "basic_matrix_copy (grid R C f) = Some ((grid R C f)\<lparr>m_Columns := None\<rparr>, grid R C f)"
proof -
  have "rows_allocated (grid R C f)"
    using grid_well_formed [of R C f] by (simp add: well_formed_def)
  then have "basic_matrix_copy (grid R C f)
      = Some (\<lparr>m_Rows = m_Rows (grid R C f), m_Columns = None,
               m_Allocator = map row_copy (m_Allocator (grid R C f)),
               m_Status = m_Status (grid R C f)\<rparr>, grid R C f)"
    by (rule basic_matrix_copy_spec)
  then show ?thesis by (simp add: grid_def row_copy_def elems_def)
qed

lemma matrix_elems_grid:
  "matrix_elems (grid R C f) = map (\<lambda>row. map (f row) [0..<C]) [0..<R]"
  "matrix_elems ((grid R C f)\<lparr>m_Columns := None\<rparr>) = map (\<lambda>row. map (f row) [0..<C]) [0..<R]"
  by (simp_all add: matrix_elems_def grid_def elems_def)


text \<open>The test of \<^verbatim>\<open>*\<close> and \<^verbatim>\<open>*=\<close>, and their results when it fails.\<close>

lemma matrix_times_incompatible:
  fixes lhs rhs :: "('a::semiring_0) basic_matrix"
  assumes "m_Columns lhs = Some lc" and "m_Columns rhs = Some rc"
  shows "incompatible lhs rhs = Some (m_Rows lhs \<noteq> rc \<and> lc \<noteq> m_Rows rhs)"
    and "m_Rows lhs \<noteq> rc \<and> lc \<noteq> m_Rows rhs \<Longrightarrow>
          matrix_times lhs rhs
            = Some (\<lparr>m_Rows = 1, m_Columns = Some 1,
                     m_Allocator = [\<lparr>v_Length = 1, v_Allocator = Some [0],
                                      v_Status = GOOD_ALLOCATOR\<rparr>],
                     m_Status = GOOD_ALLOCATOR\<rparr>, lhs, rhs)
          \<and> matrix_times_assign lhs rhs = Some (lhs, rhs)"
proof -
  show inc: "incompatible lhs rhs = Some (m_Rows lhs \<noteq> rc \<and> lc \<noteq> m_Rows rhs)"
    using assms by (simp add: incompatible_def)
  assume "m_Rows lhs \<noteq> rc \<and> lc \<noteq> m_Rows rhs"
  with inc have "incompatible lhs rhs = Some True" by simp
  then show "matrix_times lhs rhs
            = Some (\<lparr>m_Rows = 1, m_Columns = Some 1,
                     m_Allocator = [\<lparr>v_Length = 1, v_Allocator = Some [0],
                                      v_Status = GOOD_ALLOCATOR\<rparr>],
                     m_Status = GOOD_ALLOCATOR\<rparr>, lhs, rhs)
          \<and> matrix_times_assign lhs rhs = Some (lhs, rhs)"
    by (simp add: matrix_times_def matrix_times_assign_def basic_matrix_fill_eq)
qed

text \<open>The compatible product: \<^verbatim>\<open>*=\<close> assigns the local product to the object;
  \<^verbatim>\<open>*\<close> returns a copy of it, made by the copy constructor.\<close>

lemma matrix_times_compatible:
  fixes lhs rhs :: "('a::semiring_0) basic_matrix"
  assumes "well_formed lhs" and "well_formed rhs" and "nonempty lhs" and "nonempty rhs"
    and "m_Columns lhs = Some lc" and "m_Columns rhs = Some rc"
    and ok: "\<not> (m_Rows lhs \<noteq> rc \<and> lc \<noteq> m_Rows rhs)"
    and RC: "(rows, columns)
               = (if rc \<le> m_Rows lhs then (m_Rows lhs, rc) else (lc, m_Rows rhs))"
  shows "\<exists>product lhs' rhs' self' other'.
            matrix_times lhs rhs = Some (product, lhs', rhs')
          \<and> m_Rows product = rows \<and> m_Columns product = None
          \<and> matrix_elems product
              = map (\<lambda>row. map (\<lambda>col. \<Sum>inner<rows.
                       paren_value lhs row inner * paren_value rhs inner col) [0..<columns])
                  [0..<rows]
          \<and> matrix_times_assign lhs rhs = Some (self', other')
          \<and> m_Rows self' = rows \<and> m_Columns self' = Some columns \<and> well_formed self'
          \<and> matrix_elems self' = matrix_elems product"
proof -
  let ?es1 = "\<lambda>i. elems (m_Allocator lhs ! i)"
  let ?es2 = "\<lambda>i. elems (m_Allocator rhs ! i)"
  have hl: "holds (m_Rows lhs) lc ?es1 lhs"
    using assms(1,5) by (rule well_formed_holds)
  have hr: "holds (m_Rows rhs) rc ?es2 rhs"
    using assms(2,6) by (rule well_formed_holds)
  have pl: "0 < m_Rows lhs" "0 < lc"
    using nonempty_columns [OF assms(3,5)] by simp_all
  have pr: "0 < m_Rows rhs" "0 < rc"
    using nonempty_columns [OF assms(4,6)] by simp_all
  have inc': "incompatible lhs rhs = Some False"
    using assms(5,6) ok by (auto simp: incompatible_def)
  have dims: "product_dims lhs rhs = Some (rows, columns)"
    using assms(5,6) RC by (auto simp: product_dims_def split: if_splits)
  let ?f = "\<lambda>row col. \<Sum>inner<rows.
                      ?es1 (clamp_row (m_Rows lhs) row) ! clamp_col (m_Rows lhs) lc row inner
                      * ?es2 (clamp_row (m_Rows rhs) inner) ! clamp_col (m_Rows rhs) rc inner col"
  let ?g = "\<lambda>row col. \<Sum>inner<rows. paren_value lhs row inner * paren_value rhs inner col"
  from times_loops_grid [OF hl pl hr pr, of rows columns] obtain l' r' where
    loops: "times_loops rows columns (grid rows columns (\<lambda>_ _. 0), lhs, rhs)
            = Some (grid rows columns ?f, l', r')"
    by blast
  have fg: "?f = ?g"
    by (simp add: paren_value_holds(1) [OF hl pl] paren_value_holds(1) [OF hr pr])
  have t: "matrix_times lhs rhs
           = Some ((grid rows columns ?g)\<lparr>m_Columns := None\<rparr>, l', r')"
    using loops unfolding fg
    by (simp add: matrix_times_def inc' dims basic_matrix_fill_grid basic_matrix_copy_grid)
  have ta: "matrix_times_assign lhs rhs = Some (grid rows columns ?g, r')"
    using loops unfolding fg
    by (simp add: matrix_times_assign_def inc' dims basic_matrix_fill_grid matrix_assign_grid)
  let ?P = "(grid rows columns ?g)\<lparr>m_Columns := None\<rparr>"
  have s1: "m_Rows ?P = rows" and s2: "m_Columns ?P = None"
    and s3: "m_Rows (grid rows columns ?g) = rows"
    and s4: "m_Columns (grid rows columns ?g) = Some columns"
    by (simp_all add: grid_def)
  have e1: "matrix_elems ?P
              = map (\<lambda>row. map (\<lambda>col. \<Sum>inner<rows.
                       paren_value lhs row inner * paren_value rhs inner col) [0..<columns])
                  [0..<rows]"
    by (rule matrix_elems_grid(2))
  have e2: "matrix_elems (grid rows columns ?g) = matrix_elems ?P"
    unfolding matrix_elems_grid ..
  have wf: "well_formed (grid rows columns ?g)" by (rule grid_well_formed)
  from t s1 s2 e1 ta s3 s4 wf e2 show ?thesis by blast
qed

section \<open>Claims\<close>

text \<open>
  C1. The compatibility test, the 1x1 zero matrix of \<^verbatim>\<open>*\<close> and the unchanged object of
  \<^verbatim>\<open>*=\<close> on incompatible operands, the chosen dimensions and the entries are those of
  the claim, and \<^verbatim>\<open>*=\<close> leaves the object with both dimensions. The matrix that
  binary \<^verbatim>\<open>*\<close> returns for compatible operands is a copy of the product made by the
  copy constructor, which never assigns \<^verbatim>\<open>_Columns\<close>: for the 2x3 matrix
  \<open>[[1,2,3],[4,5,6]]\<close> and the 3x2 matrix \<open>[[1,2],[3,4],[5,6]]\<close> it has two rows with the
  entries \<open>[[7,10],[19,28]]\<close> and no column count, where \<^verbatim>\<open>*=\<close> leaves the 2x2 matrix
  with these entries.
\<close>

theorem binary_product_columns_unset:
  "(\<exists>product lhs' rhs'.
        matrix_times
          \<lparr>m_Rows = 2, m_Columns = Some 3,
         m_Allocator = [\<lparr>v_Length = 3, v_Allocator = Some [1, 2, 3 :: int], v_Status = GOOD_ALLOCATOR\<rparr>,
                        \<lparr>v_Length = 3, v_Allocator = Some [4, 5, 6], v_Status = GOOD_ALLOCATOR\<rparr>],
         m_Status = GOOD_ALLOCATOR\<rparr>
          \<lparr>m_Rows = 3, m_Columns = Some 2,
         m_Allocator = [\<lparr>v_Length = 2, v_Allocator = Some [1, 2 :: int], v_Status = GOOD_ALLOCATOR\<rparr>,
                        \<lparr>v_Length = 2, v_Allocator = Some [3, 4], v_Status = GOOD_ALLOCATOR\<rparr>,
                        \<lparr>v_Length = 2, v_Allocator = Some [5, 6], v_Status = GOOD_ALLOCATOR\<rparr>],
         m_Status = GOOD_ALLOCATOR\<rparr>
        = Some (product, lhs', rhs')
        \<and> m_Rows product = 2 \<and> m_Columns product = None
        \<and> matrix_elems product = [[7, 10], [19, 28]])
   \<and> (\<exists>self' other'.
        matrix_times_assign
          \<lparr>m_Rows = 2, m_Columns = Some 3,
         m_Allocator = [\<lparr>v_Length = 3, v_Allocator = Some [1, 2, 3 :: int], v_Status = GOOD_ALLOCATOR\<rparr>,
                        \<lparr>v_Length = 3, v_Allocator = Some [4, 5, 6], v_Status = GOOD_ALLOCATOR\<rparr>],
         m_Status = GOOD_ALLOCATOR\<rparr>
          \<lparr>m_Rows = 3, m_Columns = Some 2,
         m_Allocator = [\<lparr>v_Length = 2, v_Allocator = Some [1, 2 :: int], v_Status = GOOD_ALLOCATOR\<rparr>,
                        \<lparr>v_Length = 2, v_Allocator = Some [3, 4], v_Status = GOOD_ALLOCATOR\<rparr>,
                        \<lparr>v_Length = 2, v_Allocator = Some [5, 6], v_Status = GOOD_ALLOCATOR\<rparr>],
         m_Status = GOOD_ALLOCATOR\<rparr>
        = Some (self', other')
        \<and> m_Rows self' = 2 \<and> m_Columns self' = Some 2
        \<and> matrix_elems self' = [[7, 10], [19, 28]])"
proof -
  let ?L = "\<lparr>m_Rows = 2, m_Columns = Some 3,
         m_Allocator = [\<lparr>v_Length = 3, v_Allocator = Some [1, 2, 3 :: int], v_Status = GOOD_ALLOCATOR\<rparr>,
                        \<lparr>v_Length = 3, v_Allocator = Some [4, 5, 6], v_Status = GOOD_ALLOCATOR\<rparr>],
         m_Status = GOOD_ALLOCATOR\<rparr>"
  let ?R = "\<lparr>m_Rows = 3, m_Columns = Some 2,
         m_Allocator = [\<lparr>v_Length = 2, v_Allocator = Some [1, 2 :: int], v_Status = GOOD_ALLOCATOR\<rparr>,
                        \<lparr>v_Length = 2, v_Allocator = Some [3, 4], v_Status = GOOD_ALLOCATOR\<rparr>,
                        \<lparr>v_Length = 2, v_Allocator = Some [5, 6], v_Status = GOOD_ALLOCATOR\<rparr>],
         m_Status = GOOD_ALLOCATOR\<rparr>"
  have wf: "well_formed ?L" "well_formed ?R"
    by (simp_all add: well_formed_def rows_allocated_def row_invariant_def allocated_def)
  have ne: "nonempty ?L" "nonempty ?R"
    by (simp_all add: nonempty_def)
  have cl: "m_Columns ?L = Some 3" and cr: "m_Columns ?R = Some 2"
    by simp_all
  have ok: "\<not> (m_Rows ?L \<noteq> 2 \<and> (3::nat) \<noteq> m_Rows ?R)"
    by simp
  have RC: "(2::nat, 2::nat) = (if 2 \<le> m_Rows ?L then (m_Rows ?L, 2) else (3, m_Rows ?R))"
    by simp
  have vl: "paren_value ?L 0 0 = 1" "paren_value ?L 0 1 = 2"
    "paren_value ?L 1 0 = 4" "paren_value ?L 1 1 = 5"
    by (simp_all add: paren_value_def paren_get_def matrix_paren_def row_read_def row_write_def
          subscript_def elem_ref_def ref_read_def elem_read_def)
  have vr: "paren_value ?R 0 0 = 1" "paren_value ?R 0 1 = 2"
    "paren_value ?R 1 0 = 3" "paren_value ?R 1 1 = 4"
    by (simp_all add: paren_value_def paren_get_def matrix_paren_def row_read_def row_write_def
          subscript_def elem_ref_def ref_read_def elem_read_def)
  have two: "{..<2::nat} = {0, 1}" by auto
  have upt: "[0..<2] = [0, 1::nat]" by (simp add: upt_rec)
  have entries: "map (\<lambda>row. map (\<lambda>col. \<Sum>inner<2.
                       paren_value ?L row inner * paren_value ?R inner col) [0..<2]) [0..<2]
                 = [[7, 10], [19, 28]]"
    unfolding upt two using vl vr by simp
  from matrix_times_compatible [OF wf ne cl cr ok RC]
  obtain product lhs' rhs' self' other' where
    t: "matrix_times ?L ?R = Some (product, lhs', rhs')"
    and p: "m_Rows product = 2" "m_Columns product = None"
    and pe: "matrix_elems product
              = map (\<lambda>row. map (\<lambda>col. \<Sum>inner<2.
                       paren_value ?L row inner * paren_value ?R inner col) [0..<2]) [0..<2]"
    and ta: "matrix_times_assign ?L ?R = Some (self', other')"
    and s: "m_Rows self' = 2" "m_Columns self' = Some 2"
    and se: "matrix_elems self' = matrix_elems product"
    by blast
  have pe': "matrix_elems product = [[7, 10], [19, 28]]"
    using pe entries by simp
  have se': "matrix_elems self' = [[7, 10], [19, 28]]"
    using se pe' by simp
  from t p pe' ta s se' show ?thesis by blast
qed

text \<open>
  C2. The unsigned constructor with a negative fill value sets \<open>BAD_INITIALIZED\<close> and
  returns before any buffer is allocated: for length 5 and value \<open>-1\<close> the vector has
  no storage, so no index reads 0.
\<close>

theorem unsigned_negative_fill_unallocated:
  "(basic_vector_fill_unsigned 5 (- 1) :: 32 word basic_vector option)
     = Some \<lparr>v_Length = 5, v_Allocator = None, v_Status = BAD_INITIALIZED\<rparr>
   \<and> subscript_get
         (\<lparr>v_Length = 5, v_Allocator = None, v_Status = BAD_INITIALIZED\<rparr>
            :: 32 word basic_vector) 0 = None"
  by (simp add: basic_vector_fill_unsigned_def subscript_get_def subscript_def elem_ref_def)

text \<open>
  C3 (amended). On a vector of length \<open>N \<ge> 1\<close>, \<^verbatim>\<open>operator[]\<close> with an index in
  \<open>[0, N)\<close> returns the reference to that element and leaves the status alone; with an
  index \<open>\<ge> N\<close> it sets the status to \<open>BOUND_ARRAY\<close> and returns the reference that index
  \<open>N - 1\<close> gives, the last element. \<^verbatim>\<open>at\<close> returns the same reference for an index in
  range and checks no bound: out of range it touches no status and refers outside the
  buffer.
\<close>

theorem subscript_clamps_at_unchecked:
  assumes "allocated v" and "1 \<le> v_Length v"
  shows "(i < v_Length v \<longrightarrow>
            subscript v i = Some (i, v) \<and> vector_at v i = Some (i, v))
         \<and> (v_Length v \<le> i \<longrightarrow>
            subscript v i = Some (v_Length v - 1, v\<lparr>v_Status := BOUND_ARRAY\<rparr>)
            \<and> map_option fst (subscript v i) = map_option fst (subscript v (v_Length v - 1))
            \<and> vector_at v i = None)"
  using assms
  by (simp add: subscript_in_range subscript_out_of_range vector_at_in_range
        vector_at_out_of_range)

theorem subscript_clamps_at_unchecked_witness:
  "allocated \<lparr>v_Length = 2, v_Allocator = Some [4, 5 :: int], v_Status = GOOD_ALLOCATOR\<rparr>
   \<and> subscript \<lparr>v_Length = 2, v_Allocator = Some [4, 5 :: int], v_Status = GOOD_ALLOCATOR\<rparr> 7
       = Some (1, \<lparr>v_Length = 2, v_Allocator = Some [4, 5], v_Status = BOUND_ARRAY\<rparr>)
   \<and> vector_at \<lparr>v_Length = 2, v_Allocator = Some [4, 5 :: int], v_Status = GOOD_ALLOCATOR\<rparr> 7
       = None"
  using subscript_clamps_at_unchecked
          [of "\<lparr>v_Length = 2, v_Allocator = Some [4, 5 :: int], v_Status = GOOD_ALLOCATOR\<rparr>" 7]
  by (simp add: allocated_def)

text \<open>C3 as stated fails: on the one-element vector \<open>[7]\<close> index 1 is clamped and flagged by
  \<^verbatim>\<open>operator[]\<close>, while \<^verbatim>\<open>at\<close> neither flags nor redirects it.\<close>

theorem at_differs_from_subscript:
  "subscript \<lparr>v_Length = 1, v_Allocator = Some [7 :: int], v_Status = GOOD_ALLOCATOR\<rparr> 1
     = Some (0, \<lparr>v_Length = 1, v_Allocator = Some [7], v_Status = BOUND_ARRAY\<rparr>)
   \<and> vector_at \<lparr>v_Length = 1, v_Allocator = Some [7 :: int], v_Status = GOOD_ALLOCATOR\<rparr> 1
     = None"
  by (simp add: subscript_def vector_at_def elem_ref_def size_dec_def)

text \<open>
  C4. The dimension test of \<^verbatim>\<open>+\<close>, \<^verbatim>\<open>-\<close>, \<^verbatim>\<open>+=\<close> and \<^verbatim>\<open>-=\<close> joins its two
  comparisons with \<^verbatim>\<open>&&\<close>, so a mismatch in one dimension only is not detected.
  Adding the 1x2 matrix \<open>[[1,2]]\<close> to the 1x1 matrix \<open>[[5]]\<close> returns the matrix
  \<open>[[0]]\<close> with status \<open>GOOD_ALLOCATOR\<close>, not a copy of \<open>[[5]]\<close> with \<open>BOUND_ARRAY\<close>;
  \<^verbatim>\<open>+=\<close> of the 2x1 matrix \<open>[[1],[2]]\<close> to \<open>[[5]]\<close> changes it to \<open>[[6]]\<close>.
\<close>

theorem one_dimension_mismatch_undetected:
  "matrix_plus
     \<lparr>m_Rows = 1, m_Columns = Some 1,
      m_Allocator = [\<lparr>v_Length = 1, v_Allocator = Some [5 :: int], v_Status = GOOD_ALLOCATOR\<rparr>],
      m_Status = GOOD_ALLOCATOR\<rparr>
     \<lparr>m_Rows = 1, m_Columns = Some 2,
      m_Allocator = [\<lparr>v_Length = 2, v_Allocator = Some [1, 2], v_Status = GOOD_ALLOCATOR\<rparr>],
      m_Status = GOOD_ALLOCATOR\<rparr>
   = Some (\<lparr>m_Rows = 1, m_Columns = None,
            m_Allocator = [\<lparr>v_Length = 1, v_Allocator = Some [0], v_Status = GOOD_ALLOCATOR\<rparr>],
            m_Status = GOOD_ALLOCATOR\<rparr>,
           \<lparr>m_Rows = 1, m_Columns = Some 1,
            m_Allocator = [\<lparr>v_Length = 1, v_Allocator = Some [5], v_Status = GOOD_ALLOCATOR\<rparr>],
            m_Status = GOOD_ALLOCATOR\<rparr>,
           \<lparr>m_Rows = 1, m_Columns = Some 2,
            m_Allocator = [\<lparr>v_Length = 2, v_Allocator = Some [1, 2], v_Status = GOOD_ALLOCATOR\<rparr>],
            m_Status = GOOD_ALLOCATOR\<rparr>)
   \<and> matrix_plus_assign
     \<lparr>m_Rows = 1, m_Columns = Some 1,
      m_Allocator = [\<lparr>v_Length = 1, v_Allocator = Some [5 :: int], v_Status = GOOD_ALLOCATOR\<rparr>],
      m_Status = GOOD_ALLOCATOR\<rparr>
     \<lparr>m_Rows = 2, m_Columns = Some 1,
      m_Allocator = [\<lparr>v_Length = 1, v_Allocator = Some [1], v_Status = GOOD_ALLOCATOR\<rparr>,
                     \<lparr>v_Length = 1, v_Allocator = Some [2], v_Status = GOOD_ALLOCATOR\<rparr>],
      m_Status = GOOD_ALLOCATOR\<rparr>
   = Some (\<lparr>m_Rows = 1, m_Columns = Some 1,
            m_Allocator = [\<lparr>v_Length = 1, v_Allocator = Some [6], v_Status = GOOD_ALLOCATOR\<rparr>],
            m_Status = GOOD_ALLOCATOR\<rparr>,
           \<lparr>m_Rows = 2, m_Columns = Some 1,
            m_Allocator = [\<lparr>v_Length = 1, v_Allocator = Some [1], v_Status = GOOD_ALLOCATOR\<rparr>,
                           \<lparr>v_Length = 1, v_Allocator = Some [2], v_Status = GOOD_ALLOCATOR\<rparr>],
            m_Status = GOOD_ALLOCATOR\<rparr>)"
proof -
  let ?l = "\<lparr>m_Rows = 1, m_Columns = Some 1,
      m_Allocator = [\<lparr>v_Length = 1, v_Allocator = Some [5 :: int], v_Status = GOOD_ALLOCATOR\<rparr>],
      m_Status = GOOD_ALLOCATOR\<rparr>"
  have "rows_allocated ?l" by (simp add: rows_allocated_def allocated_def)
  then have copy: "basic_matrix_copy ?l
      = Some (\<lparr>m_Rows = 1, m_Columns = None,
               m_Allocator = [\<lparr>v_Length = 1, v_Allocator = Some [5], v_Status = GOOD_ALLOCATOR\<rparr>],
               m_Status = GOOD_ALLOCATOR\<rparr>, ?l)"
    by (simp add: basic_matrix_copy_spec row_copy_def elems_def)
  have tmp: "allocated \<lparr>v_Length = Suc 0, v_Allocator = Some [0 :: int], v_Status = BOUND_ARRAY\<rparr>"
    by (simp add: allocated_def)
  note copy' = copy [simplified]
  show ?thesis
    apply (rule conjI)
    subgoal
      using tmp
      by (simp add: matrix_plus_def matrix_binary_def copy' both_differ_def for_upto_Suc
          row_read_def row_write_def vector_plus_def vector_binary_def basic_vector_sized_eq
          assign_row_spec elems_def)
    subgoal
      by (simp add: matrix_plus_assign_def matrix_compound_def both_differ_def for_upto_Suc
          row_read_def row_write_def vector_plus_assign_def vector_compound_def
          subscript_get_def subscript_def elem_ref_def elem_read_def elem_write_def)
    done
qed

text \<open>
  C5. The vector's \<^verbatim>\<open>/\<close> and \<^verbatim>\<open>/=\<close> and the matrix's \<^verbatim>\<open>/=\<close> are atomic at the
  divisor zero (\<open>zero_divisor_is_atomic\<close>) and divide every element by any other divisor.
  Binary \<^verbatim>\<open>/\<close> of the matrix returns no copy for any divisor: its body calls
  \<^verbatim>\<open>other.size()\<close>, which \<^verbatim>\<open>basic_matrix\<close> does not declare, so the operator cannot
  be instantiated.
\<close>

text \<open>
  C6. For vectors of different lengths, binary \<^verbatim>\<open>+\<close> and \<^verbatim>\<open>-\<close> return a zero-filled
  vector of the left operand's length with status \<open>BOUND_ARRAY\<close>, and \<^verbatim>\<open>+=\<close> and
  \<^verbatim>\<open>-=\<close> return the object with elements and status as they were.
\<close>

theorem mismatched_lengths_plus_minus:
  assumes "v_Length lhs \<noteq> v_Length rhs"
  shows "vector_plus lhs rhs
           = Some (\<lparr>v_Length = v_Length lhs, v_Allocator = Some (replicate (v_Length lhs) 0),
                    v_Status = BOUND_ARRAY\<rparr>, lhs, rhs)
         \<and> vector_minus lhs rhs
           = Some (\<lparr>v_Length = v_Length lhs, v_Allocator = Some (replicate (v_Length lhs) 0),
                    v_Status = BOUND_ARRAY\<rparr>, lhs, rhs)
         \<and> vector_plus_assign lhs rhs = Some (lhs, rhs)
         \<and> vector_minus_assign lhs rhs = Some (lhs, rhs)"
  using assms
  by (simp add: vector_plus_def vector_minus_def vector_binary_def basic_vector_sized_eq
        vector_plus_assign_def vector_minus_assign_def vector_compound_def)

theorem mismatched_lengths_plus_minus_witness:
  "v_Length \<lparr>v_Length = 3, v_Allocator = Some [1, 2, 3 :: int], v_Status = GOOD_ALLOCATOR\<rparr>
     \<noteq> v_Length \<lparr>v_Length = 4, v_Allocator = Some [1, 2, 3, 4 :: int], v_Status = GOOD_ALLOCATOR\<rparr>
   \<and> vector_plus
        \<lparr>v_Length = 3, v_Allocator = Some [1, 2, 3 :: int], v_Status = GOOD_ALLOCATOR\<rparr>
        \<lparr>v_Length = 4, v_Allocator = Some [1, 2, 3, 4], v_Status = GOOD_ALLOCATOR\<rparr>
      = Some (\<lparr>v_Length = 3, v_Allocator = Some [0, 0, 0], v_Status = BOUND_ARRAY\<rparr>,
              \<lparr>v_Length = 3, v_Allocator = Some [1, 2, 3], v_Status = GOOD_ALLOCATOR\<rparr>,
              \<lparr>v_Length = 4, v_Allocator = Some [1, 2, 3, 4], v_Status = GOOD_ALLOCATOR\<rparr>)"
  using mismatched_lengths_plus_minus
          [of "\<lparr>v_Length = 3, v_Allocator = Some [1, 2, 3 :: int], v_Status = GOOD_ALLOCATOR\<rparr>"
              "\<lparr>v_Length = 4, v_Allocator = Some [1, 2, 3, 4 :: int], v_Status = GOOD_ALLOCATOR\<rparr>"]
  by (simp add: numeral_3_eq_3)

text \<open>
  C7. Vector \<^verbatim>\<open>==\<close> is false when the lengths differ; for equal lengths it is true
  exactly when both vectors hold the same multiset of elements. \<^verbatim>\<open>!=\<close> is its negation.
  The instances \<open>[1,2,3] == [3,2,1]\<close> (true) and \<open>[1,2,3] == [1,2]\<close> (false)
  follow it.
\<close>

theorem vector_equal_is_multiset_equality:
  assumes "allocated lhs" and "allocated rhs"
  shows "(v_Length lhs \<noteq> v_Length rhs \<longrightarrow> vector_equal lhs rhs = Some (False, lhs, rhs))
         \<and> (v_Length lhs = v_Length rhs \<longrightarrow>
              vector_equal lhs rhs = Some (mset (elems lhs) = mset (elems rhs), lhs, rhs))
         \<and> (\<exists>b. vector_equal lhs rhs = Some (b, lhs, rhs)
                \<and> vector_not_equal lhs rhs = Some (\<not> b, lhs, rhs))"
  using assms by (simp add: vector_equal_spec vector_not_equal_spec)

theorem vector_equal_is_multiset_equality_witness:
  "allocated \<lparr>v_Length = 3, v_Allocator = Some [1, 2, 3 :: int], v_Status = GOOD_ALLOCATOR\<rparr>
   \<and> allocated \<lparr>v_Length = 3, v_Allocator = Some [3, 2, 1 :: int], v_Status = GOOD_ALLOCATOR\<rparr>
   \<and> allocated \<lparr>v_Length = 2, v_Allocator = Some [1, 2 :: int], v_Status = GOOD_ALLOCATOR\<rparr>
   \<and> vector_equal
        \<lparr>v_Length = 3, v_Allocator = Some [1, 2, 3 :: int], v_Status = GOOD_ALLOCATOR\<rparr>
        \<lparr>v_Length = 3, v_Allocator = Some [3, 2, 1], v_Status = GOOD_ALLOCATOR\<rparr>
      = Some (True,
              \<lparr>v_Length = 3, v_Allocator = Some [1, 2, 3], v_Status = GOOD_ALLOCATOR\<rparr>,
              \<lparr>v_Length = 3, v_Allocator = Some [3, 2, 1], v_Status = GOOD_ALLOCATOR\<rparr>)
   \<and> vector_equal
        \<lparr>v_Length = 3, v_Allocator = Some [1, 2, 3 :: int], v_Status = GOOD_ALLOCATOR\<rparr>
        \<lparr>v_Length = 2, v_Allocator = Some [1, 2], v_Status = GOOD_ALLOCATOR\<rparr>
      = Some (False,
              \<lparr>v_Length = 3, v_Allocator = Some [1, 2, 3], v_Status = GOOD_ALLOCATOR\<rparr>,
              \<lparr>v_Length = 2, v_Allocator = Some [1, 2], v_Status = GOOD_ALLOCATOR\<rparr>)"
  using vector_equal_is_multiset_equality
          [of "\<lparr>v_Length = 3, v_Allocator = Some [1, 2, 3 :: int], v_Status = GOOD_ALLOCATOR\<rparr>"
              "\<lparr>v_Length = 3, v_Allocator = Some [3, 2, 1 :: int], v_Status = GOOD_ALLOCATOR\<rparr>"]
        vector_equal_is_multiset_equality
          [of "\<lparr>v_Length = 3, v_Allocator = Some [1, 2, 3 :: int], v_Status = GOOD_ALLOCATOR\<rparr>"
              "\<lparr>v_Length = 2, v_Allocator = Some [1, 2 :: int], v_Status = GOOD_ALLOCATOR\<rparr>"]
  by (simp add: allocated_def elems_def)

text \<open>
  C8. The sized constructor establishes the invariant (every row has \<open>columnCount\<close>
  elements), and the copy constructor loses it: copying the 1x1 zero matrix gives a
  matrix whose \<^verbatim>\<open>_Columns\<close> was never written.
\<close>

theorem copy_constructor_leaves_columns_unset:
  "basic_matrix_size 1
     = Some \<lparr>m_Rows = 1, m_Columns = Some 1,
             m_Allocator = [\<lparr>v_Length = 1, v_Allocator = Some [0 :: int],
                              v_Status = GOOD_ALLOCATOR\<rparr>],
             m_Status = GOOD_ALLOCATOR\<rparr>
   \<and> row_invariant \<lparr>m_Rows = 1, m_Columns = Some 1,
             m_Allocator = [\<lparr>v_Length = 1, v_Allocator = Some [0 :: int],
                              v_Status = GOOD_ALLOCATOR\<rparr>],
             m_Status = GOOD_ALLOCATOR\<rparr>
   \<and> basic_matrix_copy \<lparr>m_Rows = 1, m_Columns = Some 1,
             m_Allocator = [\<lparr>v_Length = 1, v_Allocator = Some [0 :: int],
                              v_Status = GOOD_ALLOCATOR\<rparr>],
             m_Status = GOOD_ALLOCATOR\<rparr>
     = Some (\<lparr>m_Rows = 1, m_Columns = None,
              m_Allocator = [\<lparr>v_Length = 1, v_Allocator = Some [0 :: int],
                              v_Status = GOOD_ALLOCATOR\<rparr>],
              m_Status = GOOD_ALLOCATOR\<rparr>,
             \<lparr>m_Rows = 1, m_Columns = Some 1,
              m_Allocator = [\<lparr>v_Length = 1, v_Allocator = Some [0 :: int],
                              v_Status = GOOD_ALLOCATOR\<rparr>],
              m_Status = GOOD_ALLOCATOR\<rparr>)
   \<and> \<not> row_invariant \<lparr>m_Rows = 1, m_Columns = None,
              m_Allocator = [\<lparr>v_Length = 1, v_Allocator = Some [0 :: int],
                              v_Status = GOOD_ALLOCATOR\<rparr>],
              m_Status = GOOD_ALLOCATOR\<rparr>"
proof -
  let ?r = "\<lparr>v_Length = 1, v_Allocator = Some [0 :: int], v_Status = GOOD_ALLOCATOR\<rparr>"
  let ?m = "\<lparr>m_Rows = 1, m_Columns = Some 1, m_Allocator = [?r], m_Status = GOOD_ALLOCATOR\<rparr>"
  have a: "allocated ?r" by (simp add: allocated_def)
  have "basic_matrix_size 1 = Some ?m"
    using a
    by (simp add: basic_matrix_size_def new_rows_eq for_upto_Suc basic_vector_sized_eq
          assign_row_spec elems_def allocated_def)
  moreover have "basic_matrix_copy ?m = Some (?m\<lparr>m_Columns := None\<rparr>, ?m)"
    using a by (subst basic_matrix_copy_spec)
      (simp_all add: rows_allocated_def row_copy_def elems_def)
  ultimately show ?thesis by (simp add: row_invariant_def)
qed

text \<open>
  C9. For an in-range index \<open>i < length\<close>, \<^verbatim>\<open>set(value, i)\<close> stores the value at
  position \<open>i\<close> and leaves every other element, the length and the status as they were.
  \<^verbatim>\<open>set\<close> checks no bound and never assigns the status: whatever the index, a call
  that returns leaves length and status untouched.
\<close>

theorem set_stores_and_frames:
  "(allocated v \<and> i < v_Length v \<longrightarrow>
      (\<exists>v'. vector_set v x i = Some v'
         \<and> elems v' = (elems v)[i := x]
         \<and> elems v' ! i = x
         \<and> (\<forall>j < v_Length v. j \<noteq> i \<longrightarrow> elems v' ! j = elems v ! j)
         \<and> v_Length v' = v_Length v \<and> v_Status v' = v_Status v))
   \<and> (\<forall>v'. vector_set v x i = Some v' \<longrightarrow>
         v_Status v' = v_Status v \<and> v_Length v' = v_Length v)"
  by (auto simp: vector_set_def elem_write_def allocated_def elems_def split: option.splits)

theorem set_stores_and_frames_witness:
  "allocated \<lparr>v_Length = 3, v_Allocator = Some [1, 2, 3 :: int], v_Status = BOUND_ARRAY\<rparr>
   \<and> (1 :: nat) < 3
   \<and> vector_set \<lparr>v_Length = 3, v_Allocator = Some [1, 2, 3 :: int], v_Status = BOUND_ARRAY\<rparr> 9 1
     = Some \<lparr>v_Length = 3, v_Allocator = Some [1, 9, 3], v_Status = BOUND_ARRAY\<rparr>"
  using set_stores_and_frames
          [of "\<lparr>v_Length = 3, v_Allocator = Some [1, 2, 3 :: int], v_Status = BOUND_ARRAY\<rparr>" 1 9]
  by (simp add: allocated_def vector_set_def elem_write_def)

text \<open>
  C10. Every comparison operator (\<^verbatim>\<open>==\<close>, \<^verbatim>\<open>!=\<close>, \<^verbatim>\<open><\<close>, \<^verbatim>\<open>>\<close>, \<^verbatim>\<open><=\<close>,
  \<^verbatim>\<open>>=\<close>) on two vectors or two matrices returns with both operands as they were:
  elements, length or dimensions, and status. The vector's \<^verbatim>\<open>==\<close> sorts copies. The
  matrix's \<^verbatim>\<open>==\<close> and \<^verbatim>\<open>!=\<close> read row \<open>i\<close> of the right operand for each row of the
  left one: they return when the left operand has no more rows than the right, and
  whenever they return the operands are unchanged.
\<close>

theorem comparisons_leave_operands_unchanged:
  fixes a b :: "('a::{zero,plus,linorder}) basic_vector" and lhs rhs :: "'a basic_matrix"
  assumes "allocated a" and "allocated b" and "well_formed lhs" and "well_formed rhs"
  shows "(\<exists>r. vector_equal a b = Some (r, a, b))
         \<and> (\<exists>r. vector_not_equal a b = Some (r, a, b))
         \<and> (\<exists>r. vector_less a b = Some (r, a, b))
         \<and> (\<exists>r. vector_greater a b = Some (r, a, b))
         \<and> (\<exists>r. vector_less_eq a b = Some (r, a, b))
         \<and> (\<exists>r. vector_greater_eq a b = Some (r, a, b))
         \<and> (\<exists>r. matrix_less lhs rhs = Some (r, lhs, rhs))
         \<and> (\<exists>r. matrix_greater lhs rhs = Some (r, lhs, rhs))
         \<and> (\<exists>r. matrix_less_eq lhs rhs = Some (r, lhs, rhs))
         \<and> (\<exists>r. matrix_greater_eq lhs rhs = Some (r, lhs, rhs))
         \<and> (m_Rows lhs \<le> m_Rows rhs \<longrightarrow>
               (\<exists>r. matrix_equal lhs rhs = Some (r, lhs, rhs))
               \<and> (\<exists>r. matrix_not_equal lhs rhs = Some (r, lhs, rhs)))
         \<and> (\<forall>r l' r'. matrix_equal lhs rhs = Some (r, l', r') \<longrightarrow> l' = lhs \<and> r' = rhs)
         \<and> (\<forall>r l' r'. matrix_not_equal lhs rhs = Some (r, l', r') \<longrightarrow> l' = lhs \<and> r' = rhs)"
proof -
  have ra: "rows_allocated lhs" "rows_allocated rhs"
    using assms(3,4) by (simp_all add: well_formed_def)
  have v1: "\<exists>r. vector_equal a b = Some (r, a, b)"
    and v2: "\<exists>r. vector_not_equal a b = Some (r, a, b)"
    using assms(1,2) by (simp_all add: vector_equal_spec vector_not_equal_spec)
  have m5: "m_Rows lhs \<le> m_Rows rhs \<longrightarrow>
               (\<exists>r. matrix_equal lhs rhs = Some (r, lhs, rhs))
               \<and> (\<exists>r. matrix_not_equal lhs rhs = Some (r, lhs, rhs))"
    using assms(3,4) by (simp add: matrix_equal_unchanged matrix_not_equal_unchanged)
  have m6: "\<forall>r l' r'. matrix_equal lhs rhs = Some (r, l', r') \<longrightarrow> l' = lhs \<and> r' = rhs"
    using matrix_equal_result by blast
  have m7: "\<forall>r l' r'. matrix_not_equal lhs rhs = Some (r, l', r') \<longrightarrow> l' = lhs \<and> r' = rhs"
    using matrix_not_equal_result by blast
  show ?thesis
    using v1 v2 m5 m6 m7
      vector_less_unchanged [OF assms(1,2)] vector_greater_unchanged [OF assms(1,2)]
      vector_less_eq_unchanged [OF assms(1,2)] vector_greater_eq_unchanged [OF assms(1,2)]
      matrix_less_unchanged [OF ra] matrix_greater_unchanged [OF ra]
      matrix_less_eq_unchanged [OF ra] matrix_greater_eq_unchanged [OF ra]
    by (intro conjI) assumption+
qed

theorem comparisons_leave_operands_unchanged_witness:
  "allocated \<lparr>v_Length = 2, v_Allocator = Some [1, 2 :: int], v_Status = GOOD_ALLOCATOR\<rparr>
   \<and> allocated \<lparr>v_Length = 2, v_Allocator = Some [2, 1 :: int], v_Status = BOUND_ARRAY\<rparr>
   \<and> well_formed
        \<lparr>m_Rows = 1, m_Columns = Some 1,
         m_Allocator = [\<lparr>v_Length = 1, v_Allocator = Some [3 :: int], v_Status = GOOD_ALLOCATOR\<rparr>],
         m_Status = GOOD_ALLOCATOR\<rparr>
   \<and> well_formed
        \<lparr>m_Rows = 1, m_Columns = Some 1,
         m_Allocator = [\<lparr>v_Length = 1, v_Allocator = Some [4 :: int], v_Status = GOOD_ALLOCATOR\<rparr>],
         m_Status = DIVIDED_ZERO\<rparr>
   \<and> (\<exists>r. vector_equal
          \<lparr>v_Length = 2, v_Allocator = Some [1, 2 :: int], v_Status = GOOD_ALLOCATOR\<rparr>
          \<lparr>v_Length = 2, v_Allocator = Some [2, 1], v_Status = BOUND_ARRAY\<rparr>
        = Some (r, \<lparr>v_Length = 2, v_Allocator = Some [1, 2], v_Status = GOOD_ALLOCATOR\<rparr>,
                \<lparr>v_Length = 2, v_Allocator = Some [2, 1], v_Status = BOUND_ARRAY\<rparr>))
   \<and> (\<exists>r. matrix_equal
          \<lparr>m_Rows = 1, m_Columns = Some 1,
           m_Allocator = [\<lparr>v_Length = 1, v_Allocator = Some [3 :: int], v_Status = GOOD_ALLOCATOR\<rparr>],
           m_Status = GOOD_ALLOCATOR\<rparr>
          \<lparr>m_Rows = 1, m_Columns = Some 1,
           m_Allocator = [\<lparr>v_Length = 1, v_Allocator = Some [4], v_Status = GOOD_ALLOCATOR\<rparr>],
           m_Status = DIVIDED_ZERO\<rparr>
        = Some (r,
          \<lparr>m_Rows = 1, m_Columns = Some 1,
           m_Allocator = [\<lparr>v_Length = 1, v_Allocator = Some [3], v_Status = GOOD_ALLOCATOR\<rparr>],
           m_Status = GOOD_ALLOCATOR\<rparr>,
          \<lparr>m_Rows = 1, m_Columns = Some 1,
           m_Allocator = [\<lparr>v_Length = 1, v_Allocator = Some [4], v_Status = GOOD_ALLOCATOR\<rparr>],
           m_Status = DIVIDED_ZERO\<rparr>))"
  using comparisons_leave_operands_unchanged
          [of "\<lparr>v_Length = 2, v_Allocator = Some [1, 2 :: int], v_Status = GOOD_ALLOCATOR\<rparr>"
              "\<lparr>v_Length = 2, v_Allocator = Some [2, 1 :: int], v_Status = BOUND_ARRAY\<rparr>"
              "\<lparr>m_Rows = 1, m_Columns = Some 1,
                m_Allocator = [\<lparr>v_Length = 1, v_Allocator = Some [3 :: int],
                                 v_Status = GOOD_ALLOCATOR\<rparr>],
                m_Status = GOOD_ALLOCATOR\<rparr>"
              "\<lparr>m_Rows = 1, m_Columns = Some 1,
                m_Allocator = [\<lparr>v_Length = 1, v_Allocator = Some [4 :: int],
                                 v_Status = GOOD_ALLOCATOR\<rparr>],
                m_Status = DIVIDED_ZERO\<rparr>"]
  by (simp add: allocated_def well_formed_def rows_allocated_def row_invariant_def)

end
